theory Spec2Isabelle
  imports Complex_Main "HOL-Library.Multiset" "HOL-Library.Word"
begin

section \<open>Data model (types.ts)\<close>

text \<open>
  JavaScript numbers are modelled as real numbers: every sum, product and comparison below
  is the exact one, and the values NaN and Infinity are outside the model.
\<close>

record MacroData =
  foodName :: string
  calories :: real
  protein :: real
  carbohydrates :: real
  fat :: real
  sugar :: real

text \<open>
  A JavaScript string is a sequence of 16-bit code units. The name of an activity is the one
  string whose characters the code inspects (it trims it), so it is held as its code units;
  the other strings are only built, compared and tested for emptiness, and are held as
  \<open>string\<close>. \<open>codeUnits\<close> gives the code units of an ASCII text.
\<close>

type_synonym jsString = "16 word list"

definition codeUnits :: "string \<Rightarrow> jsString" where
  "codeUnits s = map of_char s"

text \<open>
  \<^verbatim>\<open>DailyLogEntry = LoggedMealItem | LoggedExerciseItem\<close>. The constructor arguments are
  \<^verbatim>\<open>id, timestamp, items\<close> for a meal and \<^verbatim>\<open>id, timestamp, name, caloriesBurned\<close> for an
  exercise; the \<^verbatim>\<open>type\<close> tag is the constructor.
\<close>

datatype DailyLogEntry =
    Meal string string "MacroData list"
  | Exercise string string jsString real

fun entryId :: "DailyLogEntry \<Rightarrow> string" where
  "entryId (Meal eid ts its) = eid"
| "entryId (Exercise eid ts nm burned) = eid"

fun isMeal :: "DailyLogEntry \<Rightarrow> bool" where
  "isMeal (Meal eid ts its) = True"
| "isMeal (Exercise eid ts nm burned) = False"

section \<open>Daily totals (Dashboard and Progress)\<close>

text \<open>The accumulator \<^verbatim>\<open>{ calories, protein, carbohydrates, fat }\<close> of the Dashboard.\<close>

record DailyTotals =
  total_calories :: real
  total_protein :: real
  total_carbohydrates :: real
  total_fat :: real

text \<open>The body of \<^verbatim>\<open>entry.items.forEach(item => ...)\<close>.\<close>

definition addItem :: "DailyTotals \<Rightarrow> MacroData \<Rightarrow> DailyTotals" where
  "addItem acc item =
     acc\<lparr>total_calories := total_calories acc + calories item,
         total_protein := total_protein acc + protein item,
         total_carbohydrates := total_carbohydrates acc + carbohydrates item,
         total_fat := total_fat acc + fat item\<rparr>"

text \<open>The callback of \<^verbatim>\<open>dailyLog.reduce\<close>.\<close>

fun totalsStep :: "DailyTotals \<Rightarrow> DailyLogEntry \<Rightarrow> DailyTotals" where
  "totalsStep acc (Meal eid ts its) = foldl addItem acc its"
| "totalsStep acc (Exercise eid ts nm burned) =
     acc\<lparr>total_calories := total_calories acc - burned\<rparr>"

definition totals :: "DailyLogEntry list \<Rightarrow> DailyTotals" where
  "totals dailyLog =
     foldl totalsStep
       \<lparr>total_calories = 0, total_protein = 0, total_carbohydrates = 0, total_fat = 0\<rparr>
       dailyLog"

text \<open>
  The Progress view reduces each day's bucket with its own copy of the loop, into an
  accumulator \<^verbatim>\<open>{ calories, protein, carbs, fat }\<close>.
\<close>

record DayTotals =
  day_calories :: real
  day_protein :: real
  day_carbs :: real
  day_fat :: real

definition addDayItem :: "DayTotals \<Rightarrow> MacroData \<Rightarrow> DayTotals" where
  "addDayItem acc item =
     acc\<lparr>day_calories := day_calories acc + calories item,
         day_protein := day_protein acc + protein item,
         day_carbs := day_carbs acc + carbohydrates item,
         day_fat := day_fat acc + fat item\<rparr>"

fun dayTotalsStep :: "DayTotals \<Rightarrow> DailyLogEntry \<Rightarrow> DayTotals" where
  "dayTotalsStep acc (Meal eid ts its) = foldl addDayItem acc its"
| "dayTotalsStep acc (Exercise eid ts nm burned) =
     acc\<lparr>day_calories := day_calories acc - burned\<rparr>"

text \<open>
  \<^verbatim>\<open>const dayLog = historicalLogs[dateKey] || []\<close> followed by the reduce: one element of
  \<^verbatim>\<open>last7DaysData\<close>, without its weekday label.
\<close>

definition last7DaysData_totals ::
  "(string \<rightharpoonup> DailyLogEntry list) \<Rightarrow> string \<Rightarrow> DayTotals" where
  "last7DaysData_totals historicalLogs dateKey =
     foldl dayTotalsStep
       \<lparr>day_calories = 0, day_protein = 0, day_carbs = 0, day_fat = 0\<rparr>
       (case historicalLogs dateKey of None \<Rightarrow> [] | Some dayLog \<Rightarrow> dayLog)"

subsection \<open>Reference definition of the totals\<close>

text \<open>
  The specification's \<^verbatim>\<open>computeTotals\<close>, written from its words: a meal contributes the sums
  of its items' calories, protein, carbohydrates and fat; an exercise subtracts its
  \<^verbatim>\<open>caloriesBurned\<close> from the calories only; nothing is clamped.
\<close>

fun mealPart :: "(MacroData \<Rightarrow> real) \<Rightarrow> DailyLogEntry \<Rightarrow> real" where
  "mealPart f (Meal eid ts its) = sum_list (map f its)"
| "mealPart f (Exercise eid ts nm burned) = 0"

fun burnedPart :: "DailyLogEntry \<Rightarrow> real" where
  "burnedPart (Meal eid ts its) = 0"
| "burnedPart (Exercise eid ts nm burned) = burned"

definition computeTotals_spec :: "DailyLogEntry list \<Rightarrow> DailyTotals" where
  "computeTotals_spec lg =
     \<lparr>total_calories = sum_list (map (mealPart calories) lg) - sum_list (map burnedPart lg),
      total_protein = sum_list (map (mealPart protein) lg),
      total_carbohydrates = sum_list (map (mealPart carbohydrates) lg),
      total_fat = sum_list (map (mealPart fat) lg)\<rparr>"

text \<open>Componentwise sum of two totals.\<close>

definition plusTotals :: "DailyTotals \<Rightarrow> DailyTotals \<Rightarrow> DailyTotals" where
  "plusTotals a b =
     \<lparr>total_calories = total_calories a + total_calories b,
      total_protein = total_protein a + total_protein b,
      total_carbohydrates = total_carbohydrates a + total_carbohydrates b,
      total_fat = total_fat a + total_fat b\<rparr>"

section \<open>Calendar dates (Date.prototype.toISOString)\<close>

text \<open>
  A \<^verbatim>\<open>Date\<close> holds a time value: milliseconds since 1970-01-01T00:00:00Z, an integer.
  \<^verbatim>\<open>toISOString\<close> formats the time value in UTC as \<^verbatim>\<open>YYYY-MM-DDTHH:mm:ss.sssZ\<close> (with a
  signed six-digit year outside 0..9999). The local time zone takes no part in it.
\<close>

definition digitChar :: "nat \<Rightarrow> char" where
  "digitChar n = ''0123456789'' ! (n mod 10)"

fun padDigits :: "nat \<Rightarrow> nat \<Rightarrow> string" where
  "padDigits 0 n = []"
| "padDigits (Suc k) n = padDigits k (n div 10) @ [digitChar n]"

definition msPerDay :: int where
  "msPerDay = 86400000"

definition Day :: "int \<Rightarrow> int" where
  "Day t = t div msPerDay"

definition TimeWithinDay :: "int \<Rightarrow> int" where
  "TimeWithinDay t = t mod msPerDay"

text \<open>Year, month (1..12) and day of month of a day number in the proleptic Gregorian calendar.\<close>

definition civilFromDays :: "int \<Rightarrow> int \<times> int \<times> int" where
  "civilFromDays day =
     (let z = day + 719468;
          era = z div 146097;
          doe = z mod 146097;
          yoe = (doe - doe div 1460 + doe div 36524 - doe div 146096) div 365;
          y = yoe + era * 400;
          doy = doe - (365 * yoe + yoe div 4 - yoe div 100);
          mp = (5 * doy + 2) div 153;
          d = doy - (153 * mp + 2) div 5 + 1;
          m = (if mp < 10 then mp + 3 else mp - 9)
      in (if m \<le> 2 then y + 1 else y, m, d))"

definition isoYear :: "int \<Rightarrow> string" where
  "isoYear y =
     (if 0 \<le> y \<and> y \<le> 9999 then padDigits 4 (nat y)
      else (if y < 0 then ''-'' else ''+'') @ padDigits 6 (nat \<bar>y\<bar>))"

definition toISOString :: "int \<Rightarrow> string" where
  "toISOString t =
     (case civilFromDays (Day t) of (y, m, d) \<Rightarrow>
        isoYear y @ ''-'' @ padDigits 2 (nat m) @ ''-'' @ padDigits 2 (nat d) @ ''T''
        @ padDigits 2 (nat (TimeWithinDay t div 3600000)) @ '':''
        @ padDigits 2 (nat (TimeWithinDay t div 60000 mod 60)) @ '':''
        @ padDigits 2 (nat (TimeWithinDay t div 1000 mod 60)) @ ''.''
        @ padDigits 3 (nat (TimeWithinDay t mod 1000)) @ ''Z'')"

text \<open>
  \<^verbatim>\<open>const getTodaysDateKey = () => new Date().toISOString().slice(0, 10)\<close>; the clock reading
  \<^verbatim>\<open>new Date()\<close> is the argument.
\<close>

definition getTodaysDateKey :: "int \<Rightarrow> string" where
  "getTodaysDateKey now = take 10 (toISOString now)"

text \<open>
  The specification's date key, written from its words: the ISO date string of the calendar
  date in the local time zone. The local time of a time value is the time value plus the
  zone's offset from UTC (\<open>tza\<close>, in milliseconds, negative west of Greenwich).
\<close>

definition localCalendarDate_spec :: "int \<Rightarrow> int \<Rightarrow> string" where
  "localCalendarDate_spec tza now = take 10 (toISOString (now + tza))"

section \<open>The Dashboard's state and its persisted store\<close>

text \<open>
  The keys of \<^verbatim>\<open>localStorage\<close> the ledger and the profile loader use. \<open>None\<close> is an absent
  key. The per-date log map and the water count are held decoded (the code writes them with
  \<^verbatim>\<open>JSON.stringify\<close> and reads them back with \<^verbatim>\<open>JSON.parse\<close>); the profile record is held as
  the raw string, since its loader has to cope with text that does not parse.
\<close>

record LocalStorage =
  nutrisnap_dailyLogs :: "(string \<rightharpoonup> DailyLogEntry list) option"
  nutrisnap_waterIntake :: "real option"
  nutrisnap_logDate :: "string option"
  nutrisnap_userProfile :: "string option"
  nutrisnap_onboardingComplete :: "string option"

text \<open>
  A row of the manual-meal form, \<^verbatim>\<open>Partial<MacroData>\<close>: \<open>None\<close> is \<^verbatim>\<open>undefined\<close>.
\<close>

record ManualItem =
  manual_foodName :: "string option"
  manual_calories :: "real option"
  manual_protein :: "real option"
  manual_carbohydrates :: "real option"
  manual_fat :: "real option"
  manual_sugar :: "real option"

text \<open>
  A row of the activity form; \<^verbatim>\<open>duration\<close> and \<^verbatim>\<open>caloriesBurned\<close> are \<^verbatim>\<open>number | ''\<close>, and
  \<open>None\<close> is the empty string.
\<close>

record ActivityItem =
  activity_name :: jsString
  activity_duration :: "real option"
  activity_caloriesBurned :: "real option"

record EditingItemState =
  mealId :: string
  itemIndex :: int
  data :: MacroData

record Dashboard =
  localStorage :: LocalStorage
  dailyLog :: "DailyLogEntry list"
  waterIntake :: real
  error :: "string option"
  manualItems :: "ManualItem list"
  activityItems :: "ActivityItem list"
  editingItem :: "EditingItemState option"

text \<open>\<^verbatim>\<open>allLogsRaw ? JSON.parse(allLogsRaw) : {}\<close>\<close>

definition allLogsOf :: "LocalStorage \<Rightarrow> (string \<rightharpoonup> DailyLogEntry list)" where
  "allLogsOf ls = (case nutrisnap_dailyLogs ls of None \<Rightarrow> Map.empty | Some allLogs \<Rightarrow> allLogs)"

text \<open>The effect run once when the Dashboard mounts.\<close>

definition loadToday :: "int \<Rightarrow> Dashboard \<Rightarrow> Dashboard" where
  "loadToday now st =
     (let today = getTodaysDateKey now;
          ls = localStorage st;
          st1 = st\<lparr>dailyLog := (case allLogsOf ls today of None \<Rightarrow> [] | Some lg \<Rightarrow> lg)\<rparr>
      in if nutrisnap_logDate ls = Some today
         then st1\<lparr>waterIntake := (case nutrisnap_waterIntake ls of None \<Rightarrow> 0 | Some w \<Rightarrow> w)\<rparr>
         else st1\<lparr>localStorage := ls\<lparr>nutrisnap_waterIntake := None, nutrisnap_logDate := None\<rparr>,
                 waterIntake := 0\<rparr>)"

definition saveLog :: "int \<Rightarrow> DailyLogEntry list \<Rightarrow> Dashboard \<Rightarrow> Dashboard" where
  "saveLog now lg st =
     (let today = getTodaysDateKey now;
          ls = localStorage st
      in st\<lparr>localStorage := ls\<lparr>nutrisnap_dailyLogs := Some ((allLogsOf ls)(today \<mapsto> lg))\<rparr>,
            dailyLog := lg\<rparr>)"

definition saveWaterIntake :: "int \<Rightarrow> real \<Rightarrow> Dashboard \<Rightarrow> Dashboard" where
  "saveWaterIntake now glasses st =
     (let today = getTodaysDateKey now;
          newIntake = max 0 glasses;
          ls = localStorage st
      in st\<lparr>localStorage := ls\<lparr>nutrisnap_waterIntake := Some newIntake,
                                 nutrisnap_logDate := Some today\<rparr>,
            waterIntake := newIntake\<rparr>)"

definition handleWaterChange :: "int \<Rightarrow> real \<Rightarrow> Dashboard \<Rightarrow> Dashboard" where
  "handleWaterChange now amount st = saveWaterIntake now (waterIntake st + amount) st"

section \<open>Ledger operations (Dashboard handlers)\<close>

text \<open>Truthiness of an optional number: \<^verbatim>\<open>undefined\<close>, the empty string and \<^verbatim>\<open>0\<close> are falsy.\<close>

definition numberTruthy :: "real option \<Rightarrow> bool" where
  "numberTruthy x = (case x of None \<Rightarrow> False | Some v \<Rightarrow> v \<noteq> 0)"

text \<open>Decimal rendering of a number inside a template string, as in \<^verbatim>\<open>`meal_${Date.now()}`\<close>.\<close>

fun showNat :: "nat \<Rightarrow> string" where
  "showNat n = (if n < 10 then [digitChar n] else showNat (n div 10) @ [digitChar n])"

declare showNat.simps [simp del]

definition showInt :: "int \<Rightarrow> string" where
  "showInt i = (if i < 0 then ''-'' @ showNat (nat (- i)) else showNat (nat i))"

text \<open>
  The success path of \<^verbatim>\<open>handleAnalyzeClick\<close>: the items the image analysis returned become
  one meal at the head of the log, whatever their number. \<open>idNow\<close> is the reading of
  \<^verbatim>\<open>Date.now()\<close>, \<open>ts\<close> the formatted local time of day, \<open>now\<close> the clock reading inside
  \<^verbatim>\<open>saveLog\<close>.
\<close>

definition handleAnalyzeClick_success ::
  "int \<Rightarrow> string \<Rightarrow> int \<Rightarrow> MacroData list \<Rightarrow> Dashboard \<Rightarrow> Dashboard" where
  "handleAnalyzeClick_success idNow ts now analysisResults st =
     saveLog now (Meal (''meal_'' @ showInt idNow) ts analysisResults # dailyLog st) st"

subsection \<open>Manual meals\<close>

text \<open>
  \<^verbatim>\<open>item.foodName && item.calories !== undefined && item.calories > 0\<close>: a name is truthy
  when it is defined and not the empty string.
\<close>

definition manualItemValid :: "ManualItem \<Rightarrow> bool" where
  "manualItemValid item =
     ((case manual_foodName item of None \<Rightarrow> False | Some n \<Rightarrow> n \<noteq> [])
      \<and> (case manual_calories item of None \<Rightarrow> False | Some c \<Rightarrow> 0 < c))"

text \<open>\<^verbatim>\<open>x || 0\<close> for an optional number.\<close>

definition orZero :: "real option \<Rightarrow> real" where
  "orZero x = (case x of None \<Rightarrow> 0 | Some v \<Rightarrow> v)"

text \<open>The callback of \<^verbatim>\<open>.map\<close>; \<^verbatim>\<open>item.foodName!\<close> and \<^verbatim>\<open>item.calories!\<close> are \<open>the\<close>.\<close>

definition manualToMacro :: "ManualItem \<Rightarrow> MacroData" where
  "manualToMacro item =
     \<lparr>foodName = the (manual_foodName item),
      calories = the (manual_calories item),
      protein = orZero (manual_protein item),
      carbohydrates = orZero (manual_carbohydrates item),
      fat = orZero (manual_fat item),
      sugar = orZero (manual_sugar item)\<rparr>"

definition blankManualItem :: ManualItem where
  "blankManualItem =
     \<lparr>manual_foodName = Some [], manual_calories = None, manual_protein = None,
      manual_carbohydrates = None, manual_fat = None, manual_sugar = None\<rparr>"

definition manualLogError :: string where
  "manualLogError = ''Please enter at least one food item with a name and calories.''"

definition handleManualLogSubmit :: "int \<Rightarrow> string \<Rightarrow> int \<Rightarrow> Dashboard \<Rightarrow> Dashboard" where
  "handleManualLogSubmit idNow ts now st =
     (let st1 = st\<lparr>error := None\<rparr>;
          validItems = map manualToMacro (filter manualItemValid (manualItems st))
      in if length validItems = 0 then st1\<lparr>error := Some manualLogError\<rparr>
         else (saveLog now (Meal (''meal_'' @ showInt idNow) ts validItems # dailyLog st) st1)
                \<lparr>manualItems := [blankManualItem]\<rparr>)"

subsection \<open>Activities\<close>

text \<open>
  The code units \<^verbatim>\<open>String.prototype.trim\<close> strips, the white space and line terminators of
  ECMAScript: TAB, LF, VT, FF, CR, SPACE, NO-BREAK SPACE (U+00A0), OGHAM SPACE MARK
  (U+1680), the spaces U+2000 to U+200A, LINE SEPARATOR (U+2028), PARAGRAPH SEPARATOR
  (U+2029), NARROW NO-BREAK SPACE (U+202F), MEDIUM MATHEMATICAL SPACE (U+205F), IDEOGRAPHIC
  SPACE (U+3000) and ZERO WIDTH NO-BREAK SPACE (U+FEFF). Each is one code unit.
\<close>

definition isWhiteSpace :: "16 word \<Rightarrow> bool" where
  "isWhiteSpace c =
     (c \<in> set [0x0009, 0x000A, 0x000B, 0x000C, 0x000D, 0x0020, 0x00A0, 0x1680,
                0x2000, 0x2001, 0x2002, 0x2003, 0x2004, 0x2005, 0x2006, 0x2007, 0x2008,
                0x2009, 0x200A, 0x2028, 0x2029, 0x202F, 0x205F, 0x3000, 0xFEFF])"

text \<open>\<^verbatim>\<open>String.prototype.trim\<close>: the string without its leading and trailing white space.\<close>

definition trim :: "jsString \<Rightarrow> jsString" where
  "trim s = rev (dropWhile isWhiteSpace (rev (dropWhile isWhiteSpace s)))"

text \<open>\<^verbatim>\<open>Number(x)\<close> for \<^verbatim>\<open>number | ''\<close>: the empty string converts to 0.\<close>

definition Number :: "real option \<Rightarrow> real" where
  "Number x = (case x of None \<Rightarrow> 0 | Some v \<Rightarrow> v)"

text \<open>
  \<^verbatim>\<open>item.name.trim() && item.caloriesBurned && Number(item.caloriesBurned) > 0\<close>
\<close>

definition activityItemValid :: "ActivityItem \<Rightarrow> bool" where
  "activityItemValid item =
     (trim (activity_name item) \<noteq> []
      \<and> numberTruthy (activity_caloriesBurned item)
      \<and> 0 < Number (activity_caloriesBurned item))"

definition activityLogError :: string where
  "activityLogError = ''Please enter at least one activity with a name and calories burned.''"

text \<open>
  The callback of \<^verbatim>\<open>validItems.map((item, i) => ...)\<close>. It reads the clock anew for every
  row: \<open>idAt i\<close> is the reading of \<^verbatim>\<open>Date.now()\<close> and \<open>tsAt i\<close> the formatted local time of
  day while row \<open>i\<close> is mapped.
\<close>

definition newActivityEntry ::
  "(nat \<Rightarrow> int) \<Rightarrow> (nat \<Rightarrow> string) \<Rightarrow> ActivityItem \<times> nat \<Rightarrow> DailyLogEntry" where
  "newActivityEntry idAt tsAt p =
     (case p of (item, i) \<Rightarrow>
        Exercise (''ex_'' @ showInt (idAt i) @ ''_'' @ showNat i) (tsAt i) (activity_name item)
          (Number (activity_caloriesBurned item)))"

definition blankActivityItem :: ActivityItem where
  "blankActivityItem =
     \<lparr>activity_name = [], activity_duration = None, activity_caloriesBurned = None\<rparr>"

definition handleActivityLogSubmit ::
  "(nat \<Rightarrow> int) \<Rightarrow> (nat \<Rightarrow> string) \<Rightarrow> int \<Rightarrow> Dashboard \<Rightarrow> Dashboard" where
  "handleActivityLogSubmit idAt tsAt now st =
     (let st1 = st\<lparr>error := None\<rparr>;
          validItems = filter activityItemValid (activityItems st)
      in if length validItems = 0 then st1\<lparr>error := Some activityLogError\<rparr>
         else
           (let newActivityEntries =
                  map (newActivityEntry idAt tsAt) (zip validItems [0..<length validItems])
            in (saveLog now (newActivityEntries @ dailyLog st) st1)
                 \<lparr>activityItems := [blankActivityItem]\<rparr>))"

subsection \<open>Deleting\<close>

text \<open>
  \<^verbatim>\<open>Array.prototype.filter\<close> with a callback that reads the element's index: a loop over the
  array with a running index.
\<close>

fun filterFrom :: "nat \<Rightarrow> ('a \<Rightarrow> nat \<Rightarrow> bool) \<Rightarrow> 'a list \<Rightarrow> 'a list" where
  "filterFrom i p [] = []"
| "filterFrom i p (x # xs) =
     (if p x i then x # filterFrom (Suc i) p xs else filterFrom (Suc i) p xs)"

definition filterWithIndex :: "('a \<Rightarrow> nat \<Rightarrow> bool) \<Rightarrow> 'a list \<Rightarrow> 'a list" where
  "filterWithIndex p xs = filterFrom 0 p xs"

text \<open>The callback of \<^verbatim>\<open>dailyLog.map\<close> in \<^verbatim>\<open>handleDeleteItem\<close>.\<close>

fun removeItemAt :: "string \<Rightarrow> int \<Rightarrow> DailyLogEntry \<Rightarrow> DailyLogEntry" where
  "removeItemAt eid idx (Meal i ts its) =
     (if i = eid then Meal i ts (filterWithIndex (\<lambda>_ index. int index \<noteq> idx) its)
      else Meal i ts its)"
| "removeItemAt eid idx (Exercise i ts nm burned) = Exercise i ts nm burned"

text \<open>
  \<^verbatim>\<open>entry.type === 'exercise' || (entry.type === 'meal' && entry.items.length > 0)\<close>
\<close>

fun keepEntry :: "DailyLogEntry \<Rightarrow> bool" where
  "keepEntry (Meal i ts its) = (0 < length its)"
| "keepEntry (Exercise i ts nm burned) = True"

text \<open>
  The new log of \<^verbatim>\<open>handleDeleteItem\<close> when an item index is given: the specification's
  \<^verbatim>\<open>deleteMealItem\<close>.
\<close>

definition deleteMealItem :: "string \<Rightarrow> int \<Rightarrow> DailyLogEntry list \<Rightarrow> DailyLogEntry list" where
  "deleteMealItem eid idx lg = filter keepEntry (map (removeItemAt eid idx) lg)"

text \<open>The new log when no item index is given: the specification's \<^verbatim>\<open>deleteEntry\<close>.\<close>

definition deleteEntry :: "string \<Rightarrow> DailyLogEntry list \<Rightarrow> DailyLogEntry list" where
  "deleteEntry eid lg = filter (\<lambda>entry. entryId entry \<noteq> eid) lg"

text \<open>\<open>confirmed\<close> is the answer of \<^verbatim>\<open>window.confirm\<close>.\<close>

definition handleDeleteItem ::
  "bool \<Rightarrow> int \<Rightarrow> string \<Rightarrow> int option \<Rightarrow> Dashboard \<Rightarrow> Dashboard" where
  "handleDeleteItem confirmed now eid itemIndexOpt st =
     (if \<not> confirmed then st
      else
        (let newLog =
               (case itemIndexOpt of
                  Some idx \<Rightarrow> deleteMealItem eid idx (dailyLog st)
                | None \<Rightarrow> deleteEntry eid (dailyLog st))
         in saveLog now newLog st))"

text \<open>What removing one item does to the totals, componentwise.\<close>

definition minusItem :: "DailyTotals \<Rightarrow> MacroData \<Rightarrow> DailyTotals" where
  "minusItem t item =
     \<lparr>total_calories = total_calories t - calories item,
      total_protein = total_protein t - protein item,
      total_carbohydrates = total_carbohydrates t - carbohydrates item,
      total_fat = total_fat t - fat item\<rparr>"

subsection \<open>Editing\<close>

text \<open>
  \<^verbatim>\<open>newItems[i] = v\<close> on a fresh copy of the array. Inside the array the element is
  replaced; at the end the array grows by one; a negative index only sets a property that
  is no element. Beyond the end JavaScript leaves holes, and the result is no list of
  \<^verbatim>\<open>MacroData\<close> any more: \<open>None\<close>.
\<close>

definition assignAt :: "'a list \<Rightarrow> int \<Rightarrow> 'a \<Rightarrow> 'a list option" where
  "assignAt xs i v =
     (if i < 0 then Some xs
      else if nat i < length xs then Some (xs[nat i := v])
      else if nat i = length xs then Some (xs @ [v])
      else None)"

text \<open>The callback of \<^verbatim>\<open>dailyLog.map\<close> in \<^verbatim>\<open>handleSaveEdit\<close>.\<close>

fun saveEditEntry :: "EditingItemState \<Rightarrow> DailyLogEntry \<Rightarrow> DailyLogEntry option" where
  "saveEditEntry ed (Meal i ts its) =
     (if i = mealId ed
      then map_option (Meal i ts) (assignAt its (itemIndex ed) (data ed))
      else Some (Meal i ts its))"
| "saveEditEntry ed (Exercise i ts nm burned) = Some (Exercise i ts nm burned)"

definition handleSaveEdit :: "int \<Rightarrow> Dashboard \<Rightarrow> Dashboard option" where
  "handleSaveEdit now st =
     (case editingItem st of
        None \<Rightarrow> Some st
      | Some ed \<Rightarrow>
          (case those (map (saveEditEntry ed) (dailyLog st)) of
             None \<Rightarrow> None
           | Some newLog \<Rightarrow> Some ((saveLog now newLog st)\<lparr>editingItem := None\<rparr>)))"

text \<open>
  The \<^verbatim>\<open>name\<close> attribute of the six inputs of the edit form. \<^verbatim>\<open>parseFloat\<close> is a parameter:
  the number a non-empty input text stands for.
\<close>

datatype MacroField =
  Field_foodName | Field_calories | Field_protein | Field_carbohydrates | Field_fat | Field_sugar

definition editNumber :: "(string \<Rightarrow> real) \<Rightarrow> string \<Rightarrow> real" where
  "editNumber parseFloat v = (if v = [] then 0 else parseFloat v)"

fun setMacroField :: "(string \<Rightarrow> real) \<Rightarrow> MacroField \<Rightarrow> string \<Rightarrow> MacroData \<Rightarrow> MacroData" where
  "setMacroField parseFloat Field_foodName v d = d\<lparr>foodName := v\<rparr>"
| "setMacroField parseFloat Field_calories v d = d\<lparr>calories := editNumber parseFloat v\<rparr>"
| "setMacroField parseFloat Field_protein v d = d\<lparr>protein := editNumber parseFloat v\<rparr>"
| "setMacroField parseFloat Field_carbohydrates v d =
     d\<lparr>carbohydrates := editNumber parseFloat v\<rparr>"
| "setMacroField parseFloat Field_fat v d = d\<lparr>fat := editNumber parseFloat v\<rparr>"
| "setMacroField parseFloat Field_sugar v d = d\<lparr>sugar := editNumber parseFloat v\<rparr>"

definition handleEditFormChange ::
  "(string \<Rightarrow> real) \<Rightarrow> MacroField \<Rightarrow> string \<Rightarrow> Dashboard \<Rightarrow> Dashboard" where
  "handleEditFormChange parseFloat name v st =
     (case editingItem st of
        None \<Rightarrow> st
      | Some ed \<Rightarrow>
          st\<lparr>editingItem := Some (ed\<lparr>data := setMacroField parseFloat name v (data ed)\<rparr>)\<rparr>)"

text \<open>The edit the Dashboard performs on a log, for stating what it leaves alone.\<close>

fun editedEntry :: "string \<Rightarrow> nat \<Rightarrow> MacroData \<Rightarrow> DailyLogEntry \<Rightarrow> DailyLogEntry" where
  "editedEntry eid i d (Meal j ts its) =
     (if j = eid then Meal j ts (its[i := d]) else Meal j ts its)"
| "editedEntry eid i d (Exercise j ts nm burned) = Exercise j ts nm burned"

text \<open>An index is valid for an entry when it is a position of the targeted meal's items.\<close>

fun validIndexFor :: "string \<Rightarrow> nat \<Rightarrow> DailyLogEntry \<Rightarrow> bool" where
  "validIndexFor eid i (Meal j ts its) = (j \<noteq> eid \<or> i < length its)"
| "validIndexFor eid i (Exercise j ts nm burned) = True"

text \<open>An index is out of range for an entry when it is no position of the targeted meal's items.\<close>

fun outOfRangeFor :: "string \<Rightarrow> int \<Rightarrow> DailyLogEntry \<Rightarrow> bool" where
  "outOfRangeFor eid idx (Meal j ts its) = (j \<noteq> eid \<or> idx < 0 \<or> int (length its) \<le> idx)"
| "outOfRangeFor eid idx (Exercise j ts nm burned) = True"

section \<open>Unit conversion (Profile)\<close>

definition LBS_IN_KG :: real where
  "LBS_IN_KG = 2.20462"

definition CM_IN_INCH :: real where
  "CM_IN_INCH = 2.54"

definition kgToLbs :: "real \<Rightarrow> real" where
  "kgToLbs kg = kg * LBS_IN_KG"

definition lbsToKg :: "real \<Rightarrow> real" where
  "lbsToKg lbs = lbs / LBS_IN_KG"

definition cmToIn :: "real \<Rightarrow> real" where
  "cmToIn cm = cm / CM_IN_INCH"

definition inToCm :: "real \<Rightarrow> real" where
  "inToCm inches = inches * CM_IN_INCH"

section \<open>Calorie-goal estimator (Onboarding)\<close>

datatype ActivityLevel = Sedentary | LightlyActive | ModeratelyActive | VeryActive | ExtraActive

datatype FitnessGoal = LoseWeight | MaintainWeight | BuildMuscle

text \<open>The fields of \<^verbatim>\<open>formData\<close> the estimator reads; \<open>None\<close> is \<^verbatim>\<open>undefined\<close>.\<close>

record FormData =
  age :: "real option"
  height :: "real option"
  currentWeight :: "real option"
  activityLevel :: "ActivityLevel option"
  fitnessGoal :: "FitnessGoal option"

text \<open>\<^verbatim>\<open>Math.round\<close>: the nearest integer, a tie going up.\<close>

definition Math_round :: "real \<Rightarrow> int" where
  "Math_round x = \<lfloor>x + 1 / 2\<rfloor>"

fun activityMultipliers :: "ActivityLevel \<Rightarrow> real" where
  "activityMultipliers Sedentary = 1.2"
| "activityMultipliers LightlyActive = 1.375"
| "activityMultipliers ModeratelyActive = 1.55"
| "activityMultipliers VeryActive = 1.725"
| "activityMultipliers ExtraActive = 1.9"

fun goalAdjustments :: "FitnessGoal \<Rightarrow> real" where
  "goalAdjustments LoseWeight = - 500"
| "goalAdjustments MaintainWeight = 0"
| "goalAdjustments BuildMuscle = 300"

definition calculatedCalorieGoal :: "FormData \<Rightarrow> int" where
  "calculatedCalorieGoal formData =
     (if \<not> numberTruthy (age formData) \<or> \<not> numberTruthy (height formData)
         \<or> \<not> numberTruthy (currentWeight formData)
         \<or> activityLevel formData = None \<or> fitnessGoal formData = None
      then 0
      else
        (case (age formData, height formData, currentWeight formData,
               activityLevel formData, fitnessGoal formData) of
           (Some a, Some h, Some w, Some lvl, Some goal) \<Rightarrow>
             (let bmr = 10 * w + 6.25 * h - 5 * a + 5;
                  tdee = bmr * activityMultipliers lvl
              in Math_round (tdee + goalAdjustments goal))
         | _ \<Rightarrow> 0))"

section \<open>Loading the persisted profile (App)\<close>

text \<open>
  The value \<^verbatim>\<open>JSON.parse\<close> returns. An object is the list of its properties, a property
  being read as the first pair with its key.
\<close>

datatype json =
    JNull
  | JBool bool
  | JNumber real
  | JString string
  | JArray "json list"
  | JObject "(string \<times> json) list"

text \<open>Truthiness of a parsed value.\<close>

fun truthy :: "json \<Rightarrow> bool" where
  "truthy JNull = False"
| "truthy (JBool b) = b"
| "truthy (JNumber x) = (x \<noteq> 0)"
| "truthy (JString s) = (s \<noteq> [])"
| "truthy (JArray xs) = True"
| "truthy (JObject ps) = True"

text \<open>\<^verbatim>\<open>typeof v === 'object'\<close>: true of \<^verbatim>\<open>null\<close>, of arrays and of objects.\<close>

fun typeofObject :: "json \<Rightarrow> bool" where
  "typeofObject JNull = True"
| "typeofObject (JBool b) = False"
| "typeofObject (JNumber x) = False"
| "typeofObject (JString s) = False"
| "typeofObject (JArray xs) = True"
| "typeofObject (JObject ps) = True"

text \<open>
  The own enumerable properties an object spread \<^verbatim>\<open>{...v}\<close> copies: an array's and a string's
  are its elements under their indices.
\<close>

fun spreadProps :: "json \<Rightarrow> (string \<times> json) list" where
  "spreadProps (JObject ps) = ps"
| "spreadProps (JArray xs) = zip (map showNat [0..<length xs]) xs"
| "spreadProps JNull = []"
| "spreadProps (JBool b) = []"
| "spreadProps (JNumber x) = []"
| "spreadProps (JString s) = zip (map showNat [0..<length s]) (map (\<lambda>c. JString [c]) s)"

definition defaultProfile :: "(string \<times> json) list" where
  "defaultProfile =
     [(''name'', JString ''User''), (''email'', JString []), (''avatarUrl'', JString [])]"

text \<open>Truthiness of \<^verbatim>\<open>obj.k\<close>; a missing property reads \<^verbatim>\<open>undefined\<close>, which is falsy.\<close>

definition propTruthy :: "(string \<times> json) list \<Rightarrow> string \<Rightarrow> bool" where
  "propTruthy obj k = (case map_of obj k of None \<Rightarrow> False | Some v \<Rightarrow> truthy v)"

text \<open>The state of \<^verbatim>\<open>App\<close> the loader touches, and its state when it mounts.\<close>

record App =
  appStorage :: LocalStorage
  userProfile :: "(string \<times> json) list option"
  isOnboardingComplete :: bool

definition initialApp :: "LocalStorage \<Rightarrow> App" where
  "initialApp ls = \<lparr>appStorage = ls, userProfile = None, isOnboardingComplete = False\<rparr>"

text \<open>The two \<^verbatim>\<open>localStorage.removeItem\<close> calls of each discarding branch.\<close>

definition clearProfile :: "App \<Rightarrow> App" where
  "clearProfile app =
     app\<lparr>appStorage := (appStorage app)\<lparr>nutrisnap_userProfile := None,
                                         nutrisnap_onboardingComplete := None\<rparr>\<rparr>"

text \<open>
  The effect run once when \<^verbatim>\<open>App\<close> mounts. \<^verbatim>\<open>JSON.parse\<close> is a parameter; where it throws
  the parameter returns \<open>None\<close>, and the \<^verbatim>\<open>catch\<close> block is that branch. The merged profile
  \<^verbatim>\<open>{ ...defaultProfile, ...savedProfile }\<close> lists the saved properties before the defaults.
\<close>

definition loadUserProfile :: "(string \<Rightarrow> json option) \<Rightarrow> App \<Rightarrow> App" where
  "loadUserProfile JSON_parse app =
     (case nutrisnap_userProfile (appStorage app) of
        None \<Rightarrow> app
      | Some savedProfileJSON \<Rightarrow>
          if savedProfileJSON = [] then app
          else
            (case JSON_parse savedProfileJSON of
               None \<Rightarrow> clearProfile app
             | Some savedProfile \<Rightarrow>
                 if truthy savedProfile \<and> typeofObject savedProfile
                 then
                   (let migratedProfile = spreadProps savedProfile @ defaultProfile
                    in if propTruthy migratedProfile ''name''
                          \<and> propTruthy migratedProfile ''email''
                          \<and> propTruthy migratedProfile ''avatarUrl''
                       then app\<lparr>userProfile := Some migratedProfile,
                                isOnboardingComplete :=
                                  (nutrisnap_onboardingComplete (appStorage app) = Some ''true'')\<rparr>
                       else clearProfile app)
                 else clearProfile app))"

text \<open>\<^verbatim>\<open>if (!userProfile) return <SignUp ... />\<close>\<close>

definition rendersSignUp :: "App \<Rightarrow> bool" where
  "rendersSignUp app = (userProfile app = None)"

section \<open>Example data\<close>

definition egg :: MacroData where
  "egg = \<lparr>foodName = ''Egg'', calories = 300, protein = 20, carbohydrates = 2, fat = 10,
           sugar = 1\<rparr>"

definition toast :: MacroData where
  "toast = \<lparr>foodName = ''Toast'', calories = 200, protein = 5, carbohydrates = 30, fat = 3,
             sugar = 2\<rparr>"

text \<open>A Dashboard whose store holds one exercise and three glasses of water on 2024-01-01.\<close>

definition exampleDashboard :: Dashboard where
  "exampleDashboard =
     \<lparr>localStorage =
        \<lparr>nutrisnap_dailyLogs =
           Some [''2024-01-01'' \<mapsto> [Exercise ''ex_1_0'' ''09:00'' (codeUnits ''Running'') 150]],
         nutrisnap_waterIntake = Some 3, nutrisnap_logDate = Some ''2024-01-01'',
         nutrisnap_userProfile = None, nutrisnap_onboardingComplete = None\<rparr>,
      dailyLog = [], waterIntake = 0, error = None, manualItems = [],
      activityItems = [], editingItem = None\<rparr>"

text \<open>The same Dashboard while the second item of a two-item meal is being edited.\<close>

definition exampleEdit :: EditingItemState where
  "exampleEdit = \<lparr>mealId = ''meal_1'', itemIndex = 1, data = toast\<lparr>calories := 250\<rparr>\<rparr>"

definition editingDashboard :: Dashboard where
  "editingDashboard =
     exampleDashboard
       \<lparr>dailyLog := [Meal ''meal_1'' ''08:00'' [egg, toast],
                     Exercise ''ex_2_0'' ''09:00'' (codeUnits ''Running'') 150],
        editingItem := Some exampleEdit\<rparr>"

text \<open>
  A filled row of the manual-meal form, an activity row whose name is a single no-break
  space, and a filled row of the activity form.
\<close>

definition appleItem :: ManualItem where
  "appleItem =
     \<lparr>manual_foodName = Some ''Apple'', manual_calories = Some 95, manual_protein = None,
      manual_carbohydrates = Some 25, manual_fat = None, manual_sugar = None\<rparr>"

definition noBreakSpaceItem :: ActivityItem where
  "noBreakSpaceItem =
     \<lparr>activity_name = [0x00A0], activity_duration = None,
      activity_caloriesBurned = Some 100\<rparr>"

definition runningItem :: ActivityItem where
  "runningItem =
     \<lparr>activity_name = codeUnits ''Running'', activity_duration = Some 20,
      activity_caloriesBurned = Some 230\<rparr>"

text \<open>
  The JSON text of a profile record without a name, the object it parses to, a parser that
  knows this one text, and a store holding a given profile text.
\<close>

definition quoted :: "string \<Rightarrow> string" where
  "quoted s = CHR 0x22 # s @ [CHR 0x22]"

definition noNameText :: string where
  "noNameText =
     ''{'' @ quoted ''email'' @ '':'' @ quoted ''ann@example.org'' @ '',''
     @ quoted ''avatarUrl'' @ '':'' @ quoted ''data:image/png;base64,AAAA'' @ ''}''"

definition noNameRecord :: "(string \<times> json) list" where
  "noNameRecord =
     [(''email'', JString ''ann@example.org''),
      (''avatarUrl'', JString ''data:image/png;base64,AAAA'')]"

definition parseNoName :: "string \<Rightarrow> json option" where
  "parseNoName s = (if s = noNameText then Some (JObject noNameRecord) else None)"

definition storeWith :: "string \<Rightarrow> LocalStorage" where
  "storeWith raw =
     \<lparr>nutrisnap_dailyLogs = None, nutrisnap_waterIntake = None, nutrisnap_logDate = None,
      nutrisnap_userProfile = Some raw, nutrisnap_onboardingComplete = Some ''true''\<rparr>"

section \<open>Properties of the totals\<close>

lemma foldl_addItem:
  "foldl addItem acc its =
     \<lparr>total_calories = total_calories acc + sum_list (map calories its),
      total_protein = total_protein acc + sum_list (map protein its),
      total_carbohydrates = total_carbohydrates acc + sum_list (map carbohydrates its),
      total_fat = total_fat acc + sum_list (map fat its)\<rparr>"
  by (induction its arbitrary: acc) (simp_all add: addItem_def)

lemma totalsStep_eq:
  "totalsStep acc e =
     \<lparr>total_calories = total_calories acc + mealPart calories e - burnedPart e,
      total_protein = total_protein acc + mealPart protein e,
      total_carbohydrates = total_carbohydrates acc + mealPart carbohydrates e,
      total_fat = total_fat acc + mealPart fat e\<rparr>"
  by (cases e) (simp_all add: foldl_addItem)

lemma foldl_totalsStep:
  "foldl totalsStep acc lg =
     \<lparr>total_calories = total_calories acc + sum_list (map (mealPart calories) lg)
                         - sum_list (map burnedPart lg),
      total_protein = total_protein acc + sum_list (map (mealPart protein) lg),
      total_carbohydrates = total_carbohydrates acc + sum_list (map (mealPart carbohydrates) lg),
      total_fat = total_fat acc + sum_list (map (mealPart fat) lg)\<rparr>"
  by (induction lg arbitrary: acc) (simp_all add: totalsStep_eq)

lemma totals_eq_spec: "totals lg = computeTotals_spec lg"
  by (simp add: totals_def computeTotals_spec_def foldl_totalsStep)

lemma foldl_addDayItem:
  "foldl addDayItem acc its =
     \<lparr>day_calories = day_calories acc + sum_list (map calories its),
      day_protein = day_protein acc + sum_list (map protein its),
      day_carbs = day_carbs acc + sum_list (map carbohydrates its),
      day_fat = day_fat acc + sum_list (map fat its)\<rparr>"
  by (induction its arbitrary: acc) (simp_all add: addDayItem_def)

lemma dayTotalsStep_eq:
  "dayTotalsStep acc e =
     \<lparr>day_calories = day_calories acc + mealPart calories e - burnedPart e,
      day_protein = day_protein acc + mealPart protein e,
      day_carbs = day_carbs acc + mealPart carbohydrates e,
      day_fat = day_fat acc + mealPart fat e\<rparr>"
  by (cases e) (simp_all add: foldl_addDayItem)

lemma foldl_dayTotalsStep:
  "foldl dayTotalsStep acc lg =
     \<lparr>day_calories = day_calories acc + sum_list (map (mealPart calories) lg)
                       - sum_list (map burnedPart lg),
      day_protein = day_protein acc + sum_list (map (mealPart protein) lg),
      day_carbs = day_carbs acc + sum_list (map (mealPart carbohydrates) lg),
      day_fat = day_fat acc + sum_list (map (mealPart fat) lg)\<rparr>"
  by (induction lg arbitrary: acc) (simp_all add: dayTotalsStep_eq)

lemma sum_list_map_mset_cong:
  fixes f :: "'a \<Rightarrow> real"
  assumes "mset xs = mset ys"
  shows "sum_list (map f xs) = sum_list (map f ys)"
proof -
  have "sum_list (map f xs) = sum_mset (image_mset f (mset xs))"
    by (simp flip: sum_mset_sum_list)
  also have "\<dots> = sum_mset (image_mset f (mset ys))"
    using assms by simp
  also have "\<dots> = sum_list (map f ys)"
    by (simp flip: sum_mset_sum_list)
  finally show ?thesis .
qed

text \<open>
  Claim C1. For every day log, the Dashboard's \<^verbatim>\<open>totals\<close> is the reference
  \<^verbatim>\<open>computeTotals\<close>: calories are the sum of all meal items' calories minus the sum of all
  exercises' \<^verbatim>\<open>caloriesBurned\<close> (not clamped, so it may be negative), and protein,
  carbohydrates and fat are the sums over the meal items alone. The Progress view's per-day
  reduction of a stored bucket yields the same four numbers (an absent bucket counts as the
  empty log).
\<close>

theorem totals_match_reference:
  "totals lg = computeTotals_spec lg
   \<and> last7DaysData_totals (historicalLogs(dateKey := Some lg)) dateKey =
       \<lparr>day_calories = total_calories (computeTotals_spec lg),
        day_protein = total_protein (computeTotals_spec lg),
        day_carbs = total_carbohydrates (computeTotals_spec lg),
        day_fat = total_fat (computeTotals_spec lg)\<rparr>
   \<and> last7DaysData_totals (historicalLogs(dateKey := None)) dateKey =
       \<lparr>day_calories = total_calories (computeTotals_spec []),
        day_protein = total_protein (computeTotals_spec []),
        day_carbs = total_carbohydrates (computeTotals_spec []),
        day_fat = total_fat (computeTotals_spec [])\<rparr>"
  by (simp add: totals_eq_spec last7DaysData_totals_def foldl_dayTotalsStep
      computeTotals_spec_def)

text \<open>
  Claim C10. Under exact arithmetic \<^verbatim>\<open>totals\<close> is additive over concatenation of logs,
  and any two logs that are permutations of each other have equal totals.
\<close>

theorem totals_additive_and_order_independent:
  "totals (l1 @ l2) = plusTotals (totals l1) (totals l2)
   \<and> (mset l1 = mset l2 \<longrightarrow> totals l1 = totals l2)"
proof
  show "totals (l1 @ l2) = plusTotals (totals l1) (totals l2)"
    by (simp add: totals_eq_spec computeTotals_spec_def plusTotals_def)
  show "mset l1 = mset l2 \<longrightarrow> totals l1 = totals l2"
  proof
    assume p: "mset l1 = mset l2"
    show "totals l1 = totals l2"
      unfolding totals_eq_spec computeTotals_spec_def
      by (simp add: sum_list_map_mset_cong [OF p])
  qed
qed

theorem totals_additive_and_order_independent_witness:
  "totals ([Meal ''meal_1'' ''08:00''
             [\<lparr>foodName = ''Egg'', calories = 300, protein = 20, carbohydrates = 2,
               fat = 10, sugar = 1\<rparr>]]
           @ [Exercise ''ex_1_0'' ''09:00'' (codeUnits ''Running'') 150])
     = plusTotals
         (totals [Meal ''meal_1'' ''08:00''
                   [\<lparr>foodName = ''Egg'', calories = 300, protein = 20, carbohydrates = 2,
                     fat = 10, sugar = 1\<rparr>]])
         (totals [Exercise ''ex_1_0'' ''09:00'' (codeUnits ''Running'') 150])
   \<and> mset [Exercise ''ex_1_0'' ''09:00'' (codeUnits ''Running'') 150, Exercise ''ex_2_0'' ''10:00'' (codeUnits ''Yoga'') 40]
       = mset [Exercise ''ex_2_0'' ''10:00'' (codeUnits ''Yoga'') 40, Exercise ''ex_1_0'' ''09:00'' (codeUnits ''Running'') 150]
   \<and> totals [Exercise ''ex_1_0'' ''09:00'' (codeUnits ''Running'') 150, Exercise ''ex_2_0'' ''10:00'' (codeUnits ''Yoga'') 40]
       = totals [Exercise ''ex_2_0'' ''10:00'' (codeUnits ''Yoga'') 40, Exercise ''ex_1_0'' ''09:00'' (codeUnits ''Running'') 150]"
  using totals_additive_and_order_independent
    [of "[Exercise ''ex_1_0'' ''09:00'' (codeUnits ''Running'') 150, Exercise ''ex_2_0'' ''10:00'' (codeUnits ''Yoga'') 40]"
        "[Exercise ''ex_2_0'' ''10:00'' (codeUnits ''Yoga'') 40, Exercise ''ex_1_0'' ''09:00'' (codeUnits ''Running'') 150]"]
    totals_additive_and_order_independent
    [of "[Meal ''meal_1'' ''08:00''
             [\<lparr>foodName = ''Egg'', calories = 300, protein = 20, carbohydrates = 2,
               fat = 10, sugar = 1\<rparr>]]"
        "[Exercise ''ex_1_0'' ''09:00'' (codeUnits ''Running'') 150]"]
  by (simp add: add_mset_commute)

section \<open>Unit conversion, water intake and the calorie goal\<close>

text \<open>
  Claim C6. Over exact arithmetic the unit conversions are inverse pairs:
  \<^verbatim>\<open>kgToLbs(lbsToKg(x)) = x\<close> and \<^verbatim>\<open>cmToIn(inToCm(x)) = x\<close> for every \<open>x\<close> (and the other way
  round), with pounds = kilograms times 2.20462, kilograms = pounds divided by 2.20462,
  centimetres = inches times 2.54 and inches = centimetres divided by 2.54.
\<close>

theorem unit_conversions_round_trip:
  "kgToLbs (lbsToKg x) = x \<and> lbsToKg (kgToLbs x) = x
   \<and> cmToIn (inToCm x) = x \<and> inToCm (cmToIn x) = x
   \<and> kgToLbs x = x * 2.20462 \<and> lbsToKg x = x / 2.20462
   \<and> inToCm x = x * 2.54 \<and> cmToIn x = x / 2.54"
  by (simp add: kgToLbs_def lbsToKg_def cmToIn_def inToCm_def LBS_IN_KG_def CM_IN_INCH_def)

text \<open>
  Claim C5. For every current water intake and every delta, \<^verbatim>\<open>handleWaterChange\<close> leaves
  both the displayed and the stored water intake equal to \<open>max 0 (current + delta)\<close>: it is
  never negative, and it is never below \<open>current + delta\<close>, so nothing clamps it from above.
\<close>

theorem adjustWater_clamps_at_zero:
  "waterIntake (handleWaterChange now delta st) = max 0 (waterIntake st + delta)
   \<and> nutrisnap_waterIntake (localStorage (handleWaterChange now delta st))
       = Some (max 0 (waterIntake st + delta))
   \<and> 0 \<le> waterIntake (handleWaterChange now delta st)
   \<and> waterIntake st + delta \<le> waterIntake (handleWaterChange now delta st)"
  by (simp add: handleWaterChange_def saveWaterIntake_def Let_def)

lemma Math_round_nearest: "\<bar>real_of_int (Math_round x) - x\<bar> \<le> 1 / 2"
  unfolding Math_round_def by linarith

text \<open>
  Claim C3, as amended. The estimator returns 0 when any of age, height, current weight,
  activity level or fitness goal is absent, and also when age, height or current weight is
  present with the value 0. For every other input it returns
  \<^verbatim>\<open>Math.round((10*weight + 6.25*height - 5*age + 5) * factor + adjustment)\<close>, an integer
  within one half of that number, where the factor is 1.2, 1.375, 1.55, 1.725 or 1.9 by
  activity level and the adjustment is -500, 0 or +300 by goal.
\<close>

theorem calorie_goal_estimator:
  "(\<not> numberTruthy (age fd) \<or> \<not> numberTruthy (height fd) \<or> \<not> numberTruthy (currentWeight fd)
      \<or> activityLevel fd = None \<or> fitnessGoal fd = None
     \<longrightarrow> calculatedCalorieGoal fd = 0)
   \<and> (age fd = Some a \<and> a \<noteq> 0 \<and> height fd = Some h \<and> h \<noteq> 0
        \<and> currentWeight fd = Some w \<and> w \<noteq> 0
        \<and> activityLevel fd = Some lvl \<and> fitnessGoal fd = Some goal
     \<longrightarrow> calculatedCalorieGoal fd
           = Math_round ((10 * w + 6.25 * h - 5 * a + 5) * activityMultipliers lvl
                         + goalAdjustments goal)
         \<and> \<bar>real_of_int (calculatedCalorieGoal fd)
              - ((10 * w + 6.25 * h - 5 * a + 5) * activityMultipliers lvl
                 + goalAdjustments goal)\<bar> \<le> 1 / 2)
   \<and> map activityMultipliers [Sedentary, LightlyActive, ModeratelyActive, VeryActive, ExtraActive]
       = [1.2, 1.375, 1.55, 1.725, 1.9]
   \<and> map goalAdjustments [LoseWeight, MaintainWeight, BuildMuscle] = [- 500, 0, 300]"
  using Math_round_nearest
  by (auto simp add: calculatedCalorieGoal_def numberTruthy_def Let_def)

text \<open>
  The estimator at an input without an age, and at age 30, height 170 cm, weight 70 kg,
  Sedentary, Lose Weight: the basal rate is 700 + 1062.5 - 150 + 5 = 1617.5, times 1.2 is
  1941, minus 500 is 1441.
\<close>

theorem calorie_goal_estimator_witness:
  "\<not> numberTruthy (age \<lparr>age = None, height = Some 170, currentWeight = Some 70,
       activityLevel = Some Sedentary, fitnessGoal = Some LoseWeight\<rparr>)
   \<and> calculatedCalorieGoal \<lparr>age = None, height = Some 170, currentWeight = Some 70,
       activityLevel = Some Sedentary, fitnessGoal = Some LoseWeight\<rparr> = 0
   \<and> calculatedCalorieGoal \<lparr>age = Some 30, height = Some 170, currentWeight = Some 70,
       activityLevel = Some Sedentary, fitnessGoal = Some LoseWeight\<rparr> = 1441"
  using calorie_goal_estimator [of "\<lparr>age = None, height = Some 170, currentWeight = Some 70,
       activityLevel = Some Sedentary, fitnessGoal = Some LoseWeight\<rparr>"]
    calorie_goal_estimator [of "\<lparr>age = Some 30, height = Some 170, currentWeight = Some 70,
       activityLevel = Some Sedentary, fitnessGoal = Some LoseWeight\<rparr>" 30 170 70 Sedentary LoseWeight]
  by (simp add: numberTruthy_def Math_round_def)

text \<open>
  Claim C3 as stated fails twice. The worked example yields 1441, not 1465. And an input
  with every field present but age 0 yields 0, where the formula gives 1621.
\<close>

theorem calorie_goal_estimator_counterexample:
  "calculatedCalorieGoal \<lparr>age = Some 30, height = Some 170, currentWeight = Some 70,
       activityLevel = Some Sedentary, fitnessGoal = Some LoseWeight\<rparr> \<noteq> 1465
   \<and> age \<lparr>age = Some 0, height = Some 170, currentWeight = Some 70,
       activityLevel = Some Sedentary, fitnessGoal = Some LoseWeight\<rparr> \<noteq> None
   \<and> calculatedCalorieGoal \<lparr>age = Some 0, height = Some 170, currentWeight = Some 70,
       activityLevel = Some Sedentary, fitnessGoal = Some LoseWeight\<rparr> = 0
   \<and> Math_round ((10 * 70 + 6.25 * 170 - 5 * 0 + 5) * activityMultipliers Sedentary
                  + goalAdjustments LoseWeight) = 1621"
  by (simp add: calculatedCalorieGoal_def numberTruthy_def Math_round_def)

section \<open>The date key\<close>

lemma length_padDigits: "length (padDigits k n) = k"
  by (induction k arbitrary: n) simp_all

lemma length_isoYear: "4 \<le> length (isoYear y)"
  by (simp add: isoYear_def length_padDigits)

text \<open>The key is the date part of the timestamp, and depends on the UTC day number alone.\<close>

lemma getTodaysDateKey_Day:
  "getTodaysDateKey now =
     take 10 (case civilFromDays (Day now) of (y, m, d) \<Rightarrow>
        isoYear y @ ''-'' @ padDigits 2 (nat m) @ ''-'' @ padDigits 2 (nat d))"
proof -
  obtain y m d where c: "civilFromDays (Day now) = (y, m, d)"
    by (cases "civilFromDays (Day now)") auto
  define A where "A = isoYear y @ ''-'' @ padDigits 2 (nat m) @ ''-'' @ padDigits 2 (nat d)"
  obtain B where iso: "toISOString now = A @ B"
    by (simp add: toISOString_def c A_def)
  have "10 \<le> length A"
    using length_isoYear [of y] by (simp add: A_def length_padDigits)
  then have "take 10 (A @ B) = take 10 A"
    by simp
  then show ?thesis
    by (simp add: getTodaysDateKey_def iso c A_def)
qed

lemma getTodaysDateKey_same_Day:
  "Day t = Day t' \<Longrightarrow> getTodaysDateKey t = getTodaysDateKey t'"
  by (simp add: getTodaysDateKey_Day)

text \<open>
  Claim C4, as amended. For every call instant the date key is the ISO date of the UTC
  calendar date at that instant (the local calendar date of a zone with offset 0); it equals
  the local calendar date of a zone with offset \<open>tza\<close> whenever the offset does not move the
  instant into another UTC day. The mount effect reads the bucket under that key (the empty
  log when there is none), \<^verbatim>\<open>saveLog\<close> writes the bucket under that key and leaves every
  other bucket as it was, and \<^verbatim>\<open>saveWaterIntake\<close> records that key as the water date.
\<close>

theorem date_key_is_utc_date:
  "localCalendarDate_spec 0 now = getTodaysDateKey now
   \<and> (Day (now + tza) = Day now \<longrightarrow> getTodaysDateKey now = localCalendarDate_spec tza now)
   \<and> dailyLog (loadToday now st)
       = (case allLogsOf (localStorage st) (getTodaysDateKey now) of None \<Rightarrow> [] | Some lg \<Rightarrow> lg)
   \<and> allLogsOf (localStorage (saveLog now lg st)) (getTodaysDateKey now) = Some lg
   \<and> (\<forall>k. k \<noteq> getTodaysDateKey now \<longrightarrow>
         allLogsOf (localStorage (saveLog now lg st)) k = allLogsOf (localStorage st) k)
   \<and> nutrisnap_logDate (localStorage (saveWaterIntake now glasses st))
       = Some (getTodaysDateKey now)"
proof -
  have "Day (now + tza) = Day now \<longrightarrow> getTodaysDateKey now = localCalendarDate_spec tza now"
    using getTodaysDateKey_same_Day [of "now + tza" now]
    by (simp add: localCalendarDate_spec_def getTodaysDateKey_def)
  then show ?thesis
    by (simp add: localCalendarDate_spec_def getTodaysDateKey_def loadToday_def saveLog_def
        saveWaterIntake_def allLogsOf_def Let_def)
qed

text \<open>
  At 2024-01-02T04:30:00Z in a zone one hour east of Greenwich the two dates agree, and
  saving a log leaves the bucket of 2024-01-01 alone.
\<close>

theorem date_key_is_utc_date_witness:
  "Day (1704169800000 + 3600000) = Day 1704169800000
   \<and> getTodaysDateKey 1704169800000 = localCalendarDate_spec 3600000 1704169800000
   \<and> ''2024-01-01'' \<noteq> getTodaysDateKey 1704169800000
   \<and> allLogsOf (localStorage (saveLog 1704169800000 [] exampleDashboard)) ''2024-01-01''
       = allLogsOf (localStorage exampleDashboard) ''2024-01-01''"
proof -
  note t = date_key_is_utc_date [of 1704169800000 3600000 exampleDashboard "[]" 0]
  have d: "Day (1704169800000 + 3600000) = Day 1704169800000"
    by (simp add: Day_def msPerDay_def)
  have k: "''2024-01-01'' \<noteq> getTodaysDateKey 1704169800000"
    by code_simp
  from t d k show ?thesis
    by blast
qed

text \<open>
  Claim C4 as stated fails at 2024-01-02T04:30:00Z in a zone five hours west of Greenwich:
  the local calendar date is 2024-01-01, the key is 2024-01-02.
\<close>

theorem date_key_local_counterexample:
  "getTodaysDateKey 1704169800000 = ''2024-01-02''
   \<and> localCalendarDate_spec (- 18000000) 1704169800000 = ''2024-01-01''"
  by code_simp

section \<open>Deleting one item of a meal\<close>

lemma filterFrom_out_of_range:
  "idx < int n \<or> int n + int (length xs) \<le> idx \<Longrightarrow>
   filterFrom n (\<lambda>_ index. int index \<noteq> idx) xs = xs"
  by (induction xs arbitrary: n) auto

lemma filterFrom_in_range:
  "i < length xs \<Longrightarrow>
   filterFrom n (\<lambda>_ index. int index \<noteq> int (n + i)) xs = take i xs @ drop (Suc i) xs"
proof (induction xs arbitrary: n i)
  case Nil
  then show ?case by simp
next
  case (Cons x xs)
  show ?case
  proof (cases i)
    case 0
    then show ?thesis
      using filterFrom_out_of_range [of "int n" "Suc n" xs] by simp
  next
    case (Suc j)
    with Cons.prems have j: "j < length xs" by simp
    from Cons.IH [OF j, of "Suc n"] Suc show ?thesis by simp
  qed
qed

lemma filterWithIndex_in_range:
  "i < length xs \<Longrightarrow>
   filterWithIndex (\<lambda>_ index. int index \<noteq> int i) xs = take i xs @ drop (Suc i) xs"
  using filterFrom_in_range [of i xs 0] by (simp add: filterWithIndex_def)

lemma filterWithIndex_out_of_range:
  "idx < 0 \<or> int (length xs) \<le> idx \<Longrightarrow>
   filterWithIndex (\<lambda>_ index. int index \<noteq> idx) xs = xs"
  using filterFrom_out_of_range [of idx 0 xs] by (simp add: filterWithIndex_def)

lemma removeItemAt_other: "entryId e \<noteq> eid \<Longrightarrow> removeItemAt eid idx e = e"
  by (cases e) simp_all

lemma removeItemAt_out_of_range: "outOfRangeFor eid idx e \<Longrightarrow> removeItemAt eid idx e = e"
  by (cases e) (auto simp add: filterWithIndex_out_of_range)

lemma map_removeItemAt_other:
  "\<forall>e \<in> set lg. entryId e \<noteq> eid \<Longrightarrow> map (removeItemAt eid idx) lg = lg"
  by (induction lg) (simp_all add: removeItemAt_other)

lemma deleteMealItem_other:
  "\<forall>e \<in> set lg. entryId e \<noteq> eid \<Longrightarrow> deleteMealItem eid idx lg = filter keepEntry lg"
  by (simp add: deleteMealItem_def map_removeItemAt_other)

lemma deleteMealItem_append:
  "deleteMealItem eid idx (xs @ ys) = deleteMealItem eid idx xs @ deleteMealItem eid idx ys"
  by (simp add: deleteMealItem_def)

lemma deleteMealItem_hit:
  assumes i: "i < length its"
  shows "deleteMealItem eid (int i) [Meal eid ts its]
     = (if length its = 1 then [] else [Meal eid ts (take i its @ drop (Suc i) its)])"
proof -
  have r: "removeItemAt eid (int i) (Meal eid ts its)
             = Meal eid ts (take i its @ drop (Suc i) its)"
    by (simp only: removeItemAt.simps filterWithIndex_in_range [OF i] refl if_True)
  have l: "length (take i its @ drop (Suc i) its) = length its - 1"
    using i by simp
  have k: "keepEntry (Meal eid ts (take i its @ drop (Suc i) its)) \<longleftrightarrow> length its \<noteq> 1"
    unfolding keepEntry.simps l using i by auto
  show ?thesis
    unfolding deleteMealItem_def list.map r using k by simp
qed

lemma sum_list_remove_nth:
  fixes f :: "'a \<Rightarrow> real"
  assumes "i < length xs"
  shows "sum_list (map f (take i xs)) + sum_list (map f (drop (Suc i) xs))
           = sum_list (map f xs) - f (xs ! i)"
proof -
  have "sum_list (map f xs) = sum_list (map f (take i xs @ xs ! i # drop (Suc i) xs))"
    using id_take_nth_drop [OF assms] by simp
  then show ?thesis by simp
qed

lemma mealPart_filter_keepEntry:
  "sum_list (map (mealPart f) (filter keepEntry lg)) = sum_list (map (mealPart f) lg)"
proof (induction lg)
  case Nil
  then show ?case by simp
next
  case (Cons e lg)
  then show ?case by (cases e) simp_all
qed

lemma burnedPart_filter_keepEntry:
  "sum_list (map burnedPart (filter keepEntry lg)) = sum_list (map burnedPart lg)"
proof (induction lg)
  case Nil
  then show ?case by simp
next
  case (Cons e lg)
  then show ?case by (cases e) simp_all
qed

lemma totals_filter_keepEntry: "totals (filter keepEntry lg) = totals lg"
  by (simp add: totals_eq_spec computeTotals_spec_def mealPart_filter_keepEntry
      burnedPart_filter_keepEntry)

lemma deleteMealItem_unique:
  assumes i: "i < length its" and u: "\<forall>e \<in> set (pre @ post). entryId e \<noteq> eid"
  shows "deleteMealItem eid (int i) (pre @ Meal eid ts its # post)
     = filter keepEntry pre
       @ (if length its = 1 then [] else [Meal eid ts (take i its @ drop (Suc i) its)])
       @ filter keepEntry post"
proof -
  have "deleteMealItem eid (int i) (pre @ [Meal eid ts its] @ post)
     = deleteMealItem eid (int i) pre @ deleteMealItem eid (int i) [Meal eid ts its]
       @ deleteMealItem eid (int i) post"
    by (simp only: deleteMealItem_append)
  moreover have "deleteMealItem eid (int i) pre = filter keepEntry pre"
    using u by (simp add: deleteMealItem_other)
  moreover have "deleteMealItem eid (int i) post = filter keepEntry post"
    using u by (simp add: deleteMealItem_other)
  ultimately show ?thesis
    using deleteMealItem_hit [OF i, of eid ts] by simp
qed

lemma totals_deleteMealItem_unique:
  assumes i: "i < length its" and u: "\<forall>e \<in> set (pre @ post). entryId e \<noteq> eid"
  shows "totals (deleteMealItem eid (int i) (pre @ Meal eid ts its # post))
     = minusItem (totals (pre @ Meal eid ts its # post)) (its ! i)"
proof (cases "length its = 1")
  case True
  then have its: "its = [its ! 0]" and i0: "i = 0"
    using i by (cases its; simp)+
  have "sum_list (map f its) = f (its ! 0)" for f :: "MacroData \<Rightarrow> real"
    by (subst its) simp
  then show ?thesis
    unfolding deleteMealItem_unique [OF i u]
    by (simp add: True i0 totals_eq_spec computeTotals_spec_def minusItem_def
        mealPart_filter_keepEntry burnedPart_filter_keepEntry)
next
  case False
  then show ?thesis
    unfolding deleteMealItem_unique [OF i u]
    by (simp add: totals_eq_spec computeTotals_spec_def minusItem_def
        mealPart_filter_keepEntry burnedPart_filter_keepEntry sum_list_remove_nth [OF i])
qed

lemma deleteMealItem_noop:
  "\<forall>e \<in> set lg. keepEntry e \<and> outOfRangeFor eid idx e \<Longrightarrow> deleteMealItem eid idx lg = lg"
  by (induction lg) (simp_all add: deleteMealItem_def removeItemAt_out_of_range)

text \<open>
  Claim C2, as amended. When the id names one meal of the log and the index is a position of
  its items, \<^verbatim>\<open>deleteMealItem\<close> removes the item at that position from that meal, drops the
  meal if that was its last item, and drops every meal of the log whose item list was
  already empty; the totals afterwards are the totals before minus the removed item's
  calories, protein, carbohydrates and fat. When the index is out of range for the meals of
  that id and the log holds no meal with an empty item list, the log is unchanged. No meal
  with an empty item list is ever in the result. Once confirmed, \<^verbatim>\<open>handleDeleteItem\<close> shows
  and stores that log; declined, it changes nothing.
\<close>

theorem deleteMealItem_removes_item:
  "(i < length its \<and> (\<forall>e \<in> set (pre @ post). entryId e \<noteq> eid) \<longrightarrow>
      deleteMealItem eid (int i) (pre @ Meal eid ts its # post)
        = filter keepEntry pre
          @ (if length its = 1 then [] else [Meal eid ts (take i its @ drop (Suc i) its)])
          @ filter keepEntry post
      \<and> totals (deleteMealItem eid (int i) (pre @ Meal eid ts its # post))
        = minusItem (totals (pre @ Meal eid ts its # post)) (its ! i))
   \<and> ((\<forall>e \<in> set lg. keepEntry e \<and> outOfRangeFor eid idx e) \<longrightarrow> deleteMealItem eid idx lg = lg)
   \<and> (\<forall>e \<in> set (deleteMealItem eid idx lg). keepEntry e)
   \<and> dailyLog (handleDeleteItem True now eid (Some idx) st) = deleteMealItem eid idx (dailyLog st)
   \<and> allLogsOf (localStorage (handleDeleteItem True now eid (Some idx) st)) (getTodaysDateKey now)
       = Some (deleteMealItem eid idx (dailyLog st))
   \<and> handleDeleteItem False now eid (Some idx) st = st"
proof -
  have a: "i < length its \<and> (\<forall>e \<in> set (pre @ post). entryId e \<noteq> eid) \<longrightarrow>
      deleteMealItem eid (int i) (pre @ Meal eid ts its # post)
        = filter keepEntry pre
          @ (if length its = 1 then [] else [Meal eid ts (take i its @ drop (Suc i) its)])
          @ filter keepEntry post
      \<and> totals (deleteMealItem eid (int i) (pre @ Meal eid ts its # post))
        = minusItem (totals (pre @ Meal eid ts its # post)) (its ! i)"
    using deleteMealItem_unique totals_deleteMealItem_unique by blast
  have b: "(\<forall>e \<in> set lg. keepEntry e \<and> outOfRangeFor eid idx e) \<longrightarrow> deleteMealItem eid idx lg = lg"
    using deleteMealItem_noop by blast
  have c: "\<forall>e \<in> set (deleteMealItem eid idx lg). keepEntry e"
    by (simp add: deleteMealItem_def)
  have d: "dailyLog (handleDeleteItem True now eid (Some idx) st) = deleteMealItem eid idx (dailyLog st)"
    by (simp add: handleDeleteItem_def saveLog_def Let_def)
  have e: "allLogsOf (localStorage (handleDeleteItem True now eid (Some idx) st)) (getTodaysDateKey now)
       = Some (deleteMealItem eid idx (dailyLog st))"
    by (simp add: handleDeleteItem_def saveLog_def Let_def allLogsOf_def)
  have f: "handleDeleteItem False now eid (Some idx) st = st"
    by (simp add: handleDeleteItem_def)
  from a b c d e f show ?thesis by blast
qed

text \<open>
  Removing the first of two items, removing the only item of a meal, and an index past the
  end of a two-item meal.
\<close>

theorem deleteMealItem_removes_item_witness:
  "0 < length [egg, toast]
   \<and> deleteMealItem ''meal_1'' 0
        [Meal ''meal_1'' ''08:00'' [egg, toast], Exercise ''ex_2_0'' ''09:00'' (codeUnits ''Running'') 150]
       = [Meal ''meal_1'' ''08:00'' [toast], Exercise ''ex_2_0'' ''09:00'' (codeUnits ''Running'') 150]
   \<and> totals (deleteMealItem ''meal_1'' 0
        [Meal ''meal_1'' ''08:00'' [egg, toast], Exercise ''ex_2_0'' ''09:00'' (codeUnits ''Running'') 150])
       = minusItem (totals
          [Meal ''meal_1'' ''08:00'' [egg, toast], Exercise ''ex_2_0'' ''09:00'' (codeUnits ''Running'') 150])
          egg
   \<and> deleteMealItem ''meal_1'' 0
        [Meal ''meal_1'' ''08:00'' [egg], Exercise ''ex_2_0'' ''09:00'' (codeUnits ''Running'') 150]
       = [Exercise ''ex_2_0'' ''09:00'' (codeUnits ''Running'') 150]
   \<and> outOfRangeFor ''meal_1'' 5 (Meal ''meal_1'' ''08:00'' [egg, toast])
   \<and> deleteMealItem ''meal_1'' 5
        [Meal ''meal_1'' ''08:00'' [egg, toast], Exercise ''ex_2_0'' ''09:00'' (codeUnits ''Running'') 150]
       = [Meal ''meal_1'' ''08:00'' [egg, toast], Exercise ''ex_2_0'' ''09:00'' (codeUnits ''Running'') 150]"
proof -
  note t1 = deleteMealItem_removes_item
      [where i = 0 and its = "[egg, toast]" and pre = "[]"
         and post = "[Exercise ''ex_2_0'' ''09:00'' (codeUnits ''Running'') 150]"
         and eid = "''meal_1''" and ts = "''08:00''" and idx = 5
         and lg = "[Meal ''meal_1'' ''08:00'' [egg, toast],
                    Exercise ''ex_2_0'' ''09:00'' (codeUnits ''Running'') 150]", simplified]
  note t2 = deleteMealItem_removes_item
      [where i = 0 and its = "[egg]" and pre = "[]"
         and post = "[Exercise ''ex_2_0'' ''09:00'' (codeUnits ''Running'') 150]"
         and eid = "''meal_1''" and ts = "''08:00''", simplified]
  have p: "0 < length [egg, toast]"
    by simp
  have q: "outOfRangeFor ''meal_1'' 5 (Meal ''meal_1'' ''08:00'' [egg, toast])"
    by simp
  from t1 t2 p q show ?thesis
    by blast
qed

text \<open>
  Claim C2 as stated fails on a log that holds a meal without items, which the photo path
  produces when the analysis returns no item: index 5 is out of range for the one-item
  meal, yet the call removes the other, empty meal from the log.
\<close>

theorem deleteMealItem_empty_meal_counterexample:
  "dailyLog (handleAnalyzeClick_success 1704169860000 ''08:01'' 1704169860000 [egg]
      (handleAnalyzeClick_success 1704169800000 ''08:00'' 1704169800000 [] exampleDashboard))
     = [Meal ''meal_1704169860000'' ''08:01'' [egg], Meal ''meal_1704169800000'' ''08:00'' []]
   \<and> deleteMealItem ''meal_1704169860000'' 5
        [Meal ''meal_1704169860000'' ''08:01'' [egg], Meal ''meal_1704169800000'' ''08:00'' []]
     = [Meal ''meal_1704169860000'' ''08:01'' [egg]]"
proof -
  have a: "showInt 1704169860000 = ''1704169860000''"
    by (simp add: showInt_def showNat.simps digitChar_def)
  have b: "showInt 1704169800000 = ''1704169800000''"
    by (simp add: showInt_def showNat.simps digitChar_def)
  show ?thesis
    by (simp add: handleAnalyzeClick_success_def saveLog_def Let_def a b deleteMealItem_def
        filterWithIndex_def exampleDashboard_def)
qed

section \<open>Editing one item of a meal\<close>

lemma assignAt_valid: "i < length xs \<Longrightarrow> assignAt xs (int i) v = Some (xs[i := v])"
  by (simp add: assignAt_def)

lemma saveEditEntry_valid:
  "itemIndex ed = int i \<Longrightarrow> validIndexFor (mealId ed) i e \<Longrightarrow>
   saveEditEntry ed e = Some (editedEntry (mealId ed) i (data ed) e)"
  by (cases e) (auto simp add: assignAt_valid)

lemma those_saveEditEntry:
  "itemIndex ed = int i \<Longrightarrow> \<forall>e \<in> set lg. validIndexFor (mealId ed) i e \<Longrightarrow>
   those (map (saveEditEntry ed) lg) = Some (map (editedEntry (mealId ed) i (data ed)) lg)"
  by (induction lg) (simp_all add: saveEditEntry_valid)

lemma handleSaveEdit_valid:
  "editingItem st = Some ed \<Longrightarrow> itemIndex ed = int i \<Longrightarrow>
   \<forall>e \<in> set (dailyLog st). validIndexFor (mealId ed) i e \<Longrightarrow>
   handleSaveEdit now st =
     Some ((saveLog now (map (editedEntry (mealId ed) i (data ed)) (dailyLog st)) st)
             \<lparr>editingItem := None\<rparr>)"
  by (simp add: handleSaveEdit_def those_saveEditEntry)

lemma editedEntry_other:
  "entryId e \<noteq> eid \<or> \<not> isMeal e \<Longrightarrow> editedEntry eid i d e = e"
  by (cases e) auto

lemma editedEntry_frame:
  "k < length lg \<Longrightarrow> entryId (lg ! k) \<noteq> eid \<or> \<not> isMeal (lg ! k) \<Longrightarrow>
   map (editedEntry eid i d) lg ! k = lg ! k"
  by (simp add: editedEntry_other)

lemma editedEntry_target:
  assumes "k < length lg" and "lg ! k = Meal eid ts its" and "i < length its"
  shows "\<exists>its'. map (editedEntry eid i d) lg ! k = Meal eid ts its'
           \<and> length its' = length its \<and> its' ! i = d
           \<and> (\<forall>j < length its. j \<noteq> i \<longrightarrow> its' ! j = its ! j)"
proof (intro exI conjI)
  show "map (editedEntry eid i d) lg ! k = Meal eid ts (its[i := d])"
    using assms by simp
  show "length (its[i := d]) = length its"
    by simp
  show "its[i := d] ! i = d"
    using assms by simp
  show "\<forall>j < length its. j \<noteq> i \<longrightarrow> its[i := d] ! j = its ! j"
    by simp
qed

text \<open>
  Claim C9. When an edit is open and its index is a position of the items of every meal with
  the edited id, \<^verbatim>\<open>handleSaveEdit\<close> succeeds and shows and stores the log in which each such
  meal has the item at that position replaced by the edit's record. The new log has the
  length of the old one; every exercise and every meal with another id is the entry it was;
  the targeted meal keeps its id, its time stamp and the number of its items, holds the
  replacement at the index, and every other item where it was. In the edit form a numeric
  field left empty becomes 0 in the replacement record, the record's other fields unchanged.
\<close>

theorem editMealItem_replaces_one_item:
  "(editingItem st = Some ed \<and> itemIndex ed = int i
      \<and> (\<forall>e \<in> set (dailyLog st). validIndexFor (mealId ed) i e) \<longrightarrow>
      handleSaveEdit now st =
        Some ((saveLog now (map (editedEntry (mealId ed) i (data ed)) (dailyLog st)) st)
                \<lparr>editingItem := None\<rparr>))
   \<and> length (map (editedEntry eid i d) lg) = length lg
   \<and> (\<forall>k < length lg. entryId (lg ! k) \<noteq> eid \<or> \<not> isMeal (lg ! k) \<longrightarrow>
         map (editedEntry eid i d) lg ! k = lg ! k)
   \<and> (\<forall>k < length lg. \<forall>ts its. lg ! k = Meal eid ts its \<and> i < length its \<longrightarrow>
         (\<exists>its'. map (editedEntry eid i d) lg ! k = Meal eid ts its'
            \<and> length its' = length its \<and> its' ! i = d
            \<and> (\<forall>j < length its. j \<noteq> i \<longrightarrow> its' ! j = its ! j)))
   \<and> (editingItem st = Some ed \<longrightarrow>
         map (\<lambda>name. editingItem (handleEditFormChange parseFloat name [] st))
           [Field_calories, Field_protein, Field_carbohydrates, Field_fat, Field_sugar]
         = [Some (ed\<lparr>data := (data ed)\<lparr>calories := 0\<rparr>\<rparr>),
            Some (ed\<lparr>data := (data ed)\<lparr>protein := 0\<rparr>\<rparr>),
            Some (ed\<lparr>data := (data ed)\<lparr>carbohydrates := 0\<rparr>\<rparr>),
            Some (ed\<lparr>data := (data ed)\<lparr>fat := 0\<rparr>\<rparr>),
            Some (ed\<lparr>data := (data ed)\<lparr>sugar := 0\<rparr>\<rparr>)])"
proof -
  have a: "editingItem st = Some ed \<and> itemIndex ed = int i
      \<and> (\<forall>e \<in> set (dailyLog st). validIndexFor (mealId ed) i e) \<longrightarrow>
      handleSaveEdit now st =
        Some ((saveLog now (map (editedEntry (mealId ed) i (data ed)) (dailyLog st)) st)
                \<lparr>editingItem := None\<rparr>)"
    using handleSaveEdit_valid by blast
  have b: "length (map (editedEntry eid i d) lg) = length lg"
    by simp
  have c: "\<forall>k < length lg. entryId (lg ! k) \<noteq> eid \<or> \<not> isMeal (lg ! k) \<longrightarrow>
         map (editedEntry eid i d) lg ! k = lg ! k"
    using editedEntry_frame by blast
  have d: "\<forall>k < length lg. \<forall>ts its. lg ! k = Meal eid ts its \<and> i < length its \<longrightarrow>
         (\<exists>its'. map (editedEntry eid i d) lg ! k = Meal eid ts its'
            \<and> length its' = length its \<and> its' ! i = d
            \<and> (\<forall>j < length its. j \<noteq> i \<longrightarrow> its' ! j = its ! j))"
    using editedEntry_target by blast
  have e: "editingItem st = Some ed \<longrightarrow>
         map (\<lambda>name. editingItem (handleEditFormChange parseFloat name [] st))
           [Field_calories, Field_protein, Field_carbohydrates, Field_fat, Field_sugar]
         = [Some (ed\<lparr>data := (data ed)\<lparr>calories := 0\<rparr>\<rparr>),
            Some (ed\<lparr>data := (data ed)\<lparr>protein := 0\<rparr>\<rparr>),
            Some (ed\<lparr>data := (data ed)\<lparr>carbohydrates := 0\<rparr>\<rparr>),
            Some (ed\<lparr>data := (data ed)\<lparr>fat := 0\<rparr>\<rparr>),
            Some (ed\<lparr>data := (data ed)\<lparr>sugar := 0\<rparr>\<rparr>)]"
    by (simp add: handleEditFormChange_def editNumber_def)
  from a b c d e show ?thesis
    by (intro conjI)
qed

text \<open>Saving an edit of the second item of a two-item meal that sets its calories to 250.\<close>

theorem editMealItem_replaces_one_item_witness:
  "editingItem editingDashboard = Some exampleEdit \<and> itemIndex exampleEdit = int 1
   \<and> validIndexFor ''meal_1'' 1 (Meal ''meal_1'' ''08:00'' [egg, toast])
   \<and> map_option dailyLog (handleSaveEdit 1704169800000 editingDashboard)
       = Some [Meal ''meal_1'' ''08:00'' [egg, toast\<lparr>calories := 250\<rparr>],
               Exercise ''ex_2_0'' ''09:00'' (codeUnits ''Running'') 150]
   \<and> map (editedEntry ''meal_1'' 1 (toast\<lparr>calories := 250\<rparr>))
        [Meal ''meal_1'' ''08:00'' [egg, toast], Exercise ''ex_2_0'' ''09:00'' (codeUnits ''Running'') 150] ! 1
       = Exercise ''ex_2_0'' ''09:00'' (codeUnits ''Running'') 150"
proof -
  have h: "editingItem editingDashboard = Some exampleEdit \<and> itemIndex exampleEdit = int 1
      \<and> (\<forall>e \<in> set (dailyLog editingDashboard). validIndexFor (mealId exampleEdit) 1 e)"
    by (simp add: editingDashboard_def exampleEdit_def)
  note t = editMealItem_replaces_one_item
      [where st = editingDashboard and ed = exampleEdit and i = 1 and now = 1704169800000
         and eid = "''meal_1''" and d = "toast\<lparr>calories := 250\<rparr>"
         and lg = "[Meal ''meal_1'' ''08:00'' [egg, toast],
                    Exercise ''ex_2_0'' ''09:00'' (codeUnits ''Running'') 150]"]
  from t h have s: "handleSaveEdit 1704169800000 editingDashboard =
        Some ((saveLog 1704169800000
                 (map (editedEntry (mealId exampleEdit) 1 (data exampleEdit))
                    (dailyLog editingDashboard)) editingDashboard)
                \<lparr>editingItem := None\<rparr>)"
    by blast
  have l: "map_option dailyLog (handleSaveEdit 1704169800000 editingDashboard)
       = Some [Meal ''meal_1'' ''08:00'' [egg, toast\<lparr>calories := 250\<rparr>],
               Exercise ''ex_2_0'' ''09:00'' (codeUnits ''Running'') 150]"
    unfolding s by (simp add: saveLog_def Let_def editingDashboard_def exampleEdit_def)
  have f: "map (editedEntry ''meal_1'' 1 (toast\<lparr>calories := 250\<rparr>))
        [Meal ''meal_1'' ''08:00'' [egg, toast], Exercise ''ex_2_0'' ''09:00'' (codeUnits ''Running'') 150] ! 1
       = Exercise ''ex_2_0'' ''09:00'' (codeUnits ''Running'') 150"
    by simp
  have v: "validIndexFor ''meal_1'' 1 (Meal ''meal_1'' ''08:00'' [egg, toast])"
    by simp
  from h l f v show ?thesis
    by blast
qed

section \<open>Submitting manual meals and activities\<close>

lemma manualToMacro_valid:
  "manualItemValid item \<Longrightarrow>
   foodName (manualToMacro item) \<noteq> [] \<and> 0 < calories (manualToMacro item)"
  by (auto simp add: manualItemValid_def manualToMacro_def split: option.splits)

lemma newActivityEntry_valid:
  "activityItemValid item \<Longrightarrow>
   \<exists>eid t nm burned. newActivityEntry idAt tsAt (item, i) = Exercise eid t nm burned
      \<and> trim nm \<noteq> [] \<and> 0 < burned"
  by (simp add: activityItemValid_def newActivityEntry_def)

lemma newActivityEntries_valid:
  assumes "e \<in> set (map (newActivityEntry idAt tsAt)
                       (zip (filter activityItemValid items)
                          [0..<length (filter activityItemValid items)]))"
  shows "\<exists>eid t nm burned. e = Exercise eid t nm burned \<and> trim nm \<noteq> [] \<and> 0 < burned"
proof -
  from assms obtain item i
    where p: "(item, i) \<in> set (zip (filter activityItemValid items)
                                  [0..<length (filter activityItemValid items)])"
      and e: "e = newActivityEntry idAt tsAt (item, i)"
    by auto
  from p have "item \<in> set (filter activityItemValid items)"
    by (rule set_zip_leftD)
  then have "activityItemValid item"
    by simp
  from newActivityEntry_valid [OF this, of idAt tsAt i] e show ?thesis
    by simp
qed

text \<open>
  Claim C7, as amended. A manual-meal submission keeps the rows that have a non-empty name
  and calories above 0 and silently leaves out the others; an activity submission keeps the
  rows whose name is more than white space (as \<^verbatim>\<open>trim\<close> sees it, so a name of no-break
  spaces is blank too) and whose calories burned are above 0. When no row is kept,
  the submission is rejected: the error message is set and nothing else changes, neither the
  displayed log nor the store. When some row is kept, the kept rows are saved (as one meal,
  or as one exercise per row) in front of the day's log, displayed and stored, and no error
  message is set. Every item of the saved meal has a non-empty name and positive calories,
  and every saved exercise has a non-blank name and positive calories burned.
\<close>

theorem invalid_items_never_persisted:
  "(filter manualItemValid (manualItems st) = [] \<longrightarrow>
      handleManualLogSubmit idNow ts now st = st\<lparr>error := Some manualLogError\<rparr>)
   \<and> (filter manualItemValid (manualItems st) \<noteq> [] \<longrightarrow>
        dailyLog (handleManualLogSubmit idNow ts now st)
          = Meal (''meal_'' @ showInt idNow) ts
              (map manualToMacro (filter manualItemValid (manualItems st))) # dailyLog st
        \<and> allLogsOf (localStorage (handleManualLogSubmit idNow ts now st)) (getTodaysDateKey now)
          = Some (dailyLog (handleManualLogSubmit idNow ts now st))
        \<and> error (handleManualLogSubmit idNow ts now st) = None)
   \<and> (\<forall>m \<in> set (map manualToMacro (filter manualItemValid (manualItems st))).
         foodName m \<noteq> [] \<and> 0 < calories m)
   \<and> (filter activityItemValid (activityItems st) = [] \<longrightarrow>
        handleActivityLogSubmit idAt tsAt now st = st\<lparr>error := Some activityLogError\<rparr>)
   \<and> (filter activityItemValid (activityItems st) \<noteq> [] \<longrightarrow>
        dailyLog (handleActivityLogSubmit idAt tsAt now st)
          = map (newActivityEntry idAt tsAt)
              (zip (filter activityItemValid (activityItems st))
                 [0..<length (filter activityItemValid (activityItems st))])
            @ dailyLog st
        \<and> allLogsOf (localStorage (handleActivityLogSubmit idAt tsAt now st)) (getTodaysDateKey now)
          = Some (dailyLog (handleActivityLogSubmit idAt tsAt now st))
        \<and> error (handleActivityLogSubmit idAt tsAt now st) = None)
   \<and> (\<forall>e \<in> set (map (newActivityEntry idAt tsAt)
                    (zip (filter activityItemValid (activityItems st))
                       [0..<length (filter activityItemValid (activityItems st))])).
         \<exists>eid t nm burned. e = Exercise eid t nm burned \<and> trim nm \<noteq> [] \<and> 0 < burned)"
proof (intro conjI)
  show "filter manualItemValid (manualItems st) = [] \<longrightarrow>
      handleManualLogSubmit idNow ts now st = st\<lparr>error := Some manualLogError\<rparr>"
    by (simp add: handleManualLogSubmit_def Let_def)
  show "filter manualItemValid (manualItems st) \<noteq> [] \<longrightarrow>
        dailyLog (handleManualLogSubmit idNow ts now st)
          = Meal (''meal_'' @ showInt idNow) ts
              (map manualToMacro (filter manualItemValid (manualItems st))) # dailyLog st
        \<and> allLogsOf (localStorage (handleManualLogSubmit idNow ts now st)) (getTodaysDateKey now)
          = Some (dailyLog (handleManualLogSubmit idNow ts now st))
        \<and> error (handleManualLogSubmit idNow ts now st) = None"
    by (simp add: handleManualLogSubmit_def Let_def saveLog_def allLogsOf_def)
  show "\<forall>m \<in> set (map manualToMacro (filter manualItemValid (manualItems st))).
         foodName m \<noteq> [] \<and> 0 < calories m"
    using manualToMacro_valid by auto
  show "filter activityItemValid (activityItems st) = [] \<longrightarrow>
        handleActivityLogSubmit idAt tsAt now st = st\<lparr>error := Some activityLogError\<rparr>"
    by (simp add: handleActivityLogSubmit_def Let_def)
  show "filter activityItemValid (activityItems st) \<noteq> [] \<longrightarrow>
        dailyLog (handleActivityLogSubmit idAt tsAt now st)
          = map (newActivityEntry idAt tsAt)
              (zip (filter activityItemValid (activityItems st))
                 [0..<length (filter activityItemValid (activityItems st))])
            @ dailyLog st
        \<and> allLogsOf (localStorage (handleActivityLogSubmit idAt tsAt now st)) (getTodaysDateKey now)
          = Some (dailyLog (handleActivityLogSubmit idAt tsAt now st))
        \<and> error (handleActivityLogSubmit idAt tsAt now st) = None"
    by (simp add: handleActivityLogSubmit_def Let_def saveLog_def allLogsOf_def)
  show "\<forall>e \<in> set (map (newActivityEntry idAt tsAt)
                    (zip (filter activityItemValid (activityItems st))
                       [0..<length (filter activityItemValid (activityItems st))])).
         \<exists>eid t nm burned. e = Exercise eid t nm burned \<and> trim nm \<noteq> [] \<and> 0 < burned"
    using newActivityEntries_valid by blast
qed

lemma manual_examples_valid: "manualItemValid appleItem" "\<not> manualItemValid blankManualItem"
  by (simp_all add: manualItemValid_def appleItem_def blankManualItem_def)

lemma activity_examples_valid:
  "activityItemValid runningItem" "\<not> activityItemValid blankActivityItem"
  "\<not> activityItemValid noBreakSpaceItem"
  by (simp_all add: activityItemValid_def runningItem_def blankActivityItem_def
      noBreakSpaceItem_def codeUnits_def trim_def isWhiteSpace_def numberTruthy_def Number_def)

lemma showInt_example: "showInt 1704169800000 = ''1704169800000''"
  by (simp add: showInt_def showNat.simps digitChar_def)

text \<open>
  A submission of one blank row is rejected; a submission of a filled and a blank row saves
  the filled one. An activity submission of a blank row and a row named by a no-break space
  is rejected; one of a blank and a filled row saves the filled one.
\<close>

theorem invalid_items_never_persisted_witness:
  "filter manualItemValid (manualItems (exampleDashboard\<lparr>manualItems := [blankManualItem]\<rparr>)) = []
   \<and> handleManualLogSubmit 1704169800000 ''08:00'' 1704169800000
        (exampleDashboard\<lparr>manualItems := [blankManualItem]\<rparr>)
       = exampleDashboard\<lparr>manualItems := [blankManualItem], error := Some manualLogError\<rparr>
   \<and> filter manualItemValid
        (manualItems (exampleDashboard\<lparr>manualItems := [appleItem, blankManualItem]\<rparr>)) \<noteq> []
   \<and> dailyLog (handleManualLogSubmit 1704169800000 ''08:00'' 1704169800000
        (exampleDashboard\<lparr>manualItems := [appleItem, blankManualItem]\<rparr>))
       = [Meal ''meal_1704169800000'' ''08:00'' [manualToMacro appleItem]]
   \<and> manualToMacro appleItem \<in> set (map manualToMacro (filter manualItemValid
        (manualItems (exampleDashboard\<lparr>manualItems := [appleItem, blankManualItem]\<rparr>))))
   \<and> 0 < calories (manualToMacro appleItem)
   \<and> filter activityItemValid
        (activityItems
           (exampleDashboard\<lparr>activityItems := [blankActivityItem, noBreakSpaceItem]\<rparr>))
       = []
   \<and> handleActivityLogSubmit (\<lambda>i. 1704169800000) (\<lambda>i. ''08:00'') 1704169800000
        (exampleDashboard\<lparr>activityItems := [blankActivityItem, noBreakSpaceItem]\<rparr>)
       = exampleDashboard\<lparr>activityItems := [blankActivityItem, noBreakSpaceItem],
                          error := Some activityLogError\<rparr>
   \<and> filter activityItemValid
        (activityItems (exampleDashboard\<lparr>activityItems := [blankActivityItem, runningItem]\<rparr>))
       \<noteq> []
   \<and> dailyLog (handleActivityLogSubmit (\<lambda>i. 1704169800000) (\<lambda>i. ''08:00'') 1704169800000
        (exampleDashboard\<lparr>activityItems := [blankActivityItem, runningItem]\<rparr>))
       = [Exercise ''ex_1704169800000_0'' ''08:00'' (codeUnits ''Running'') 230]"
proof -
  note t1 = invalid_items_never_persisted
      [where st = "exampleDashboard\<lparr>manualItems := [blankManualItem]\<rparr>"
         and idNow = 1704169800000 and ts = "''08:00''" and now = 1704169800000]
  note t2 = invalid_items_never_persisted
      [where st = "exampleDashboard\<lparr>manualItems := [appleItem, blankManualItem]\<rparr>"
         and idNow = 1704169800000 and ts = "''08:00''" and now = 1704169800000]
  note t3 = invalid_items_never_persisted
      [where st = "exampleDashboard\<lparr>activityItems := [blankActivityItem, noBreakSpaceItem]\<rparr>"
         and idAt = "\<lambda>i. 1704169800000" and tsAt = "\<lambda>i. ''08:00''"
         and now = 1704169800000]
  note t4 = invalid_items_never_persisted
      [where st = "exampleDashboard\<lparr>activityItems := [blankActivityItem, runningItem]\<rparr>"
         and idAt = "\<lambda>i. 1704169800000" and tsAt = "\<lambda>i. ''08:00''"
         and now = 1704169800000]
  have n0: "showNat 0 = ''0''"
    by (simp add: showNat.simps digitChar_def)
  have d0: "dailyLog exampleDashboard = []"
    by (simp add: exampleDashboard_def)
  have c1: "filter manualItemValid
      (manualItems (exampleDashboard\<lparr>manualItems := [blankManualItem]\<rparr>)) = []"
    by (simp add: manual_examples_valid)
  from t1 c1 have r1: "handleManualLogSubmit 1704169800000 ''08:00'' 1704169800000
        (exampleDashboard\<lparr>manualItems := [blankManualItem]\<rparr>)
       = exampleDashboard\<lparr>manualItems := [blankManualItem], error := Some manualLogError\<rparr>"
    by simp
  from t2 have r2: "dailyLog (handleManualLogSubmit 1704169800000 ''08:00'' 1704169800000
        (exampleDashboard\<lparr>manualItems := [appleItem, blankManualItem]\<rparr>))
       = [Meal ''meal_1704169800000'' ''08:00'' [manualToMacro appleItem]]"
    by (simp add: manual_examples_valid showInt_example d0)
  from t2 have r2': "0 < calories (manualToMacro appleItem)"
    by (simp add: manual_examples_valid)
  have c3: "filter activityItemValid
      (activityItems
         (exampleDashboard\<lparr>activityItems := [blankActivityItem, noBreakSpaceItem]\<rparr>))
      = []"
    by (simp add: activity_examples_valid)
  from t3 c3 have r3:
    "handleActivityLogSubmit (\<lambda>i. 1704169800000) (\<lambda>i. ''08:00'') 1704169800000
        (exampleDashboard\<lparr>activityItems := [blankActivityItem, noBreakSpaceItem]\<rparr>)
       = exampleDashboard\<lparr>activityItems := [blankActivityItem, noBreakSpaceItem],
                          error := Some activityLogError\<rparr>"
    by simp
  from t4 have r4:
    "dailyLog (handleActivityLogSubmit (\<lambda>i. 1704169800000) (\<lambda>i. ''08:00'') 1704169800000
        (exampleDashboard\<lparr>activityItems := [blankActivityItem, runningItem]\<rparr>))
       = [Exercise ''ex_1704169800000_0'' ''08:00'' (codeUnits ''Running'') 230]"
    by (simp add: activity_examples_valid showInt_example n0 d0 newActivityEntry_def Number_def)
      (simp add: runningItem_def)
  from r1 r2 r2' r3 r4 show ?thesis
    by (simp add: manual_examples_valid activity_examples_valid)
qed

text \<open>
  Claim C7 as stated fails on a submission of a valid row and a row without a name: no
  error message is set and the submission is saved in part, the valid row alone.
\<close>

theorem mixed_submission_counterexample:
  "\<not> manualItemValid blankManualItem
   \<and> error (handleManualLogSubmit 1704169800000 ''08:00'' 1704169800000
        (exampleDashboard\<lparr>manualItems := [appleItem, blankManualItem]\<rparr>)) = None
   \<and> dailyLog (handleManualLogSubmit 1704169800000 ''08:00'' 1704169800000
        (exampleDashboard\<lparr>manualItems := [appleItem, blankManualItem]\<rparr>))
     = [Meal ''meal_1704169800000'' ''08:00''
          [\<lparr>foodName = ''Apple'', calories = 95, protein = 0, carbohydrates = 25, fat = 0,
            sugar = 0\<rparr>]]
   \<and> dailyLog (exampleDashboard\<lparr>manualItems := [appleItem, blankManualItem]\<rparr>) = []"
proof -
  have f: "filter manualItemValid [appleItem, blankManualItem] = [appleItem]"
    by (simp add: manual_examples_valid)
  have m: "manualToMacro appleItem
     = \<lparr>foodName = ''Apple'', calories = 95, protein = 0, carbohydrates = 25, fat = 0,
        sugar = 0\<rparr>"
    by (simp add: manualToMacro_def orZero_def appleItem_def)
  show ?thesis
    by (simp add: handleManualLogSubmit_def Let_def saveLog_def manual_examples_valid showInt_example f m exampleDashboard_def)
qed

section \<open>Loading the persisted profile\<close>

lemma showNat_digits: "set (showNat n) \<subseteq> set ''0123456789''"
proof (induction n rule: showNat.induct)
  case (1 n)
  have d: "digitChar n \<in> set ''0123456789''"
    unfolding digitChar_def by (rule nth_mem) simp
  show ?case
  proof (cases "n < 10")
    case True
    then show ?thesis using d by (subst showNat.simps) simp
  next
    case False
    with 1 have "set (showNat (n div 10)) \<subseteq> set ''0123456789''" by simp
    with False d show ?thesis by (subst showNat.simps) simp
  qed
qed

lemma showNat_not_field:
  "showNat i \<noteq> ''name''" "showNat i \<noteq> ''email''" "showNat i \<noteq> ''avatarUrl''"
  using showNat_digits [of i] by auto

lemma map_of_array_props:
  assumes "\<And>i. showNat i \<noteq> k"
  shows "map_of (zip (map showNat is) xs) k = None"
proof -
  have "k \<notin> set (map showNat is)"
    using assms by auto
  then have "k \<notin> fst ` set (zip (map showNat is) xs)"
    by (metis in_set_zipE imageE prod.collapse)
  then show ?thesis
    by (simp add: map_of_eq_None_iff)
qed

lemma migrated_email:
  "propTruthy (ps @ defaultProfile) ''email'' = propTruthy ps ''email''"
  by (simp add: propTruthy_def defaultProfile_def map_add_def split: option.splits)

lemma migrated_avatarUrl:
  "propTruthy (ps @ defaultProfile) ''avatarUrl'' = propTruthy ps ''avatarUrl''"
  by (simp add: propTruthy_def defaultProfile_def map_add_def split: option.splits)

lemma migrated_name:
  "propTruthy (ps @ defaultProfile) ''name''
     = (map_of ps ''name'' = None \<or> propTruthy ps ''name'')"
  by (simp add: propTruthy_def defaultProfile_def map_add_def split: option.splits)

lemma array_no_email: "\<not> propTruthy (spreadProps (JArray xs)) ''email''"
  by (simp add: propTruthy_def map_of_array_props showNat_not_field)

lemma loadUserProfile_absent:
  "nutrisnap_userProfile ls = None \<or> nutrisnap_userProfile ls = Some [] \<Longrightarrow>
   loadUserProfile JSON_parse (initialApp ls) = initialApp ls"
  by (auto simp add: loadUserProfile_def initialApp_def)

lemma loadUserProfile_unparseable:
  "nutrisnap_userProfile ls = Some raw \<Longrightarrow> raw \<noteq> [] \<Longrightarrow> JSON_parse raw = None \<Longrightarrow>
   loadUserProfile JSON_parse (initialApp ls)
     = initialApp (ls\<lparr>nutrisnap_userProfile := None, nutrisnap_onboardingComplete := None\<rparr>)"
  by (simp add: loadUserProfile_def initialApp_def clearProfile_def)

lemma loadUserProfile_not_object:
  "nutrisnap_userProfile ls = Some raw \<Longrightarrow> raw \<noteq> [] \<Longrightarrow> JSON_parse raw = Some v \<Longrightarrow>
   \<forall>ps. v \<noteq> JObject ps \<Longrightarrow>
   loadUserProfile JSON_parse (initialApp ls)
     = initialApp (ls\<lparr>nutrisnap_userProfile := None, nutrisnap_onboardingComplete := None\<rparr>)"
  using array_no_email
  by (cases v)
     (simp_all add: loadUserProfile_def initialApp_def clearProfile_def Let_def migrated_email
        del: spreadProps.simps)

lemma loadUserProfile_object:
  "nutrisnap_userProfile ls = Some raw \<Longrightarrow> raw \<noteq> [] \<Longrightarrow> JSON_parse raw = Some (JObject ps) \<Longrightarrow>
   loadUserProfile JSON_parse (initialApp ls)
     = (if propTruthy ps ''email'' \<and> propTruthy ps ''avatarUrl''
           \<and> (map_of ps ''name'' = None \<or> propTruthy ps ''name'')
        then (initialApp ls)
               \<lparr>userProfile := Some (ps @ defaultProfile),
                isOnboardingComplete := (nutrisnap_onboardingComplete ls = Some ''true'')\<rparr>
        else initialApp
               (ls\<lparr>nutrisnap_userProfile := None, nutrisnap_onboardingComplete := None\<rparr>))"
  by (auto simp add: loadUserProfile_def initialApp_def clearProfile_def Let_def migrated_email
        migrated_avatarUrl migrated_name)

text \<open>
  Claim C8, as amended. An absent or empty stored profile text changes nothing and leaves
  the application at sign-up. For a non-empty stored text: if it does not parse, or parses to
  something that is no object (\<^verbatim>\<open>null\<close>, a boolean, a number, a string, an array), or parses
  to an object whose email or avatarUrl is missing or falsy, or whose name is present but
  falsy, loading removes the profile record and the onboarding flag from the store and
  leaves the application at sign-up; the parse error is caught. If it parses to an object
  with a truthy email, a truthy avatarUrl and a name that is truthy or missing, the profile
  is loaded, a missing name reading \<^verbatim>\<open>User\<close>, the store is left as it is and sign-up is
  skipped.
\<close>

theorem profile_load_discards_malformed:
  "(nutrisnap_userProfile ls = None \<or> nutrisnap_userProfile ls = Some [] \<longrightarrow>
      loadUserProfile JSON_parse (initialApp ls) = initialApp ls)
   \<and> (nutrisnap_userProfile ls = Some raw \<and> raw \<noteq> [] \<longrightarrow>
        (JSON_parse raw = None \<or> (\<exists>v. JSON_parse raw = Some v \<and> (\<forall>ps. v \<noteq> JObject ps))
           \<or> (\<exists>ps. JSON_parse raw = Some (JObject ps)
                \<and> (\<not> propTruthy ps ''email'' \<or> \<not> propTruthy ps ''avatarUrl''
                     \<or> (map_of ps ''name'' \<noteq> None \<and> \<not> propTruthy ps ''name'')))
         \<longrightarrow> loadUserProfile JSON_parse (initialApp ls)
               = initialApp (ls\<lparr>nutrisnap_userProfile := None,
                                nutrisnap_onboardingComplete := None\<rparr>)
             \<and> rendersSignUp (loadUserProfile JSON_parse (initialApp ls)))
        \<and> (\<forall>ps. JSON_parse raw = Some (JObject ps)
               \<and> propTruthy ps ''email'' \<and> propTruthy ps ''avatarUrl''
               \<and> (map_of ps ''name'' = None \<or> propTruthy ps ''name'')
             \<longrightarrow> loadUserProfile JSON_parse (initialApp ls)
                   = (initialApp ls)
                       \<lparr>userProfile := Some (ps @ defaultProfile),
                        isOnboardingComplete :=
                          (nutrisnap_onboardingComplete ls = Some ''true'')\<rparr>
                 \<and> \<not> rendersSignUp (loadUserProfile JSON_parse (initialApp ls))
                 \<and> appStorage (loadUserProfile JSON_parse (initialApp ls)) = ls
                 \<and> map_of (ps @ defaultProfile) ''name''
                     = (if map_of ps ''name'' = None then Some (JString ''User'')
                        else map_of ps ''name'')))"
proof (intro conjI impI allI)
  assume "nutrisnap_userProfile ls = None \<or> nutrisnap_userProfile ls = Some []"
  then show "loadUserProfile JSON_parse (initialApp ls) = initialApp ls"
    by (rule loadUserProfile_absent)
next
  assume r: "nutrisnap_userProfile ls = Some raw \<and> raw \<noteq> []"
    and b: "JSON_parse raw = None \<or> (\<exists>v. JSON_parse raw = Some v \<and> (\<forall>ps. v \<noteq> JObject ps))
           \<or> (\<exists>ps. JSON_parse raw = Some (JObject ps)
                \<and> (\<not> propTruthy ps ''email'' \<or> \<not> propTruthy ps ''avatarUrl''
                     \<or> (map_of ps ''name'' \<noteq> None \<and> \<not> propTruthy ps ''name'')))"
  from r b show d: "loadUserProfile JSON_parse (initialApp ls)
               = initialApp (ls\<lparr>nutrisnap_userProfile := None,
                                nutrisnap_onboardingComplete := None\<rparr>)"
    using loadUserProfile_unparseable [of ls raw JSON_parse]
      loadUserProfile_not_object [of ls raw JSON_parse]
      loadUserProfile_object [of ls raw JSON_parse]
    by (elim disjE exE conjE) simp_all
  show "rendersSignUp (loadUserProfile JSON_parse (initialApp ls))"
    unfolding d by (simp add: rendersSignUp_def initialApp_def)
next
  fix ps
  assume r: "nutrisnap_userProfile ls = Some raw \<and> raw \<noteq> []"
    and g: "JSON_parse raw = Some (JObject ps)
               \<and> propTruthy ps ''email'' \<and> propTruthy ps ''avatarUrl''
               \<and> (map_of ps ''name'' = None \<or> propTruthy ps ''name'')"
  from r g show l: "loadUserProfile JSON_parse (initialApp ls)
                   = (initialApp ls)
                       \<lparr>userProfile := Some (ps @ defaultProfile),
                        isOnboardingComplete :=
                          (nutrisnap_onboardingComplete ls = Some ''true'')\<rparr>"
    using loadUserProfile_object [of ls raw JSON_parse ps] by simp
  show "\<not> rendersSignUp (loadUserProfile JSON_parse (initialApp ls))"
    unfolding l by (simp add: rendersSignUp_def)
  show "appStorage (loadUserProfile JSON_parse (initialApp ls)) = ls"
    unfolding l by (simp add: initialApp_def)
  show "map_of (ps @ defaultProfile) ''name''
                     = (if map_of ps ''name'' = None then Some (JString ''User'')
                        else map_of ps ''name'')"
    by (auto simp add: defaultProfile_def map_add_def split: option.splits)
qed

lemma noNameText_nonempty: "noNameText \<noteq> []"
  by (simp add: noNameText_def)

text \<open>A text that does not parse is discarded; the record without a name is loaded.\<close>

theorem profile_load_discards_malformed_witness:
  "nutrisnap_userProfile (storeWith ''{not json'') = Some ''{not json'' \<and> ''{not json'' \<noteq> []
   \<and> (\<lambda>s. None :: json option) ''{not json'' = None
   \<and> loadUserProfile (\<lambda>s. None) (initialApp (storeWith ''{not json''))
       = initialApp ((storeWith ''{not json'')\<lparr>nutrisnap_userProfile := None,
                                           nutrisnap_onboardingComplete := None\<rparr>)
   \<and> rendersSignUp (loadUserProfile (\<lambda>s. None) (initialApp (storeWith ''{not json'')))
   \<and> nutrisnap_userProfile (storeWith noNameText) = Some noNameText \<and> noNameText \<noteq> []
   \<and> propTruthy noNameRecord ''email'' \<and> propTruthy noNameRecord ''avatarUrl''
   \<and> \<not> rendersSignUp (loadUserProfile parseNoName (initialApp (storeWith noNameText)))
   \<and> appStorage (loadUserProfile parseNoName (initialApp (storeWith noNameText)))
       = storeWith noNameText"
proof -
  note t1 = profile_load_discards_malformed
      [where ls = "storeWith ''{not json''" and raw = "''{not json''" and JSON_parse = "\<lambda>s. None"]
  note t2 = profile_load_discards_malformed
      [where ls = "storeWith noNameText" and raw = noNameText and JSON_parse = parseNoName]
  have h1: "nutrisnap_userProfile (storeWith ''{not json'') = Some ''{not json'' \<and> ''{not json'' \<noteq> []"
    by (simp add: storeWith_def)
  have h2: "nutrisnap_userProfile (storeWith noNameText) = Some noNameText \<and> noNameText \<noteq> []"
    by (simp add: storeWith_def noNameText_nonempty)
  have h3: "parseNoName noNameText = Some (JObject noNameRecord)
      \<and> propTruthy noNameRecord ''email'' \<and> propTruthy noNameRecord ''avatarUrl''
      \<and> (map_of noNameRecord ''name'' = None \<or> propTruthy noNameRecord ''name'')"
    by (simp add: parseNoName_def propTruthy_def noNameRecord_def)
  from t1 h1 have c1: "loadUserProfile (\<lambda>s. None) (initialApp (storeWith ''{not json''))
       = initialApp ((storeWith ''{not json'')\<lparr>nutrisnap_userProfile := None,
                                           nutrisnap_onboardingComplete := None\<rparr>)
     \<and> rendersSignUp (loadUserProfile (\<lambda>s. None) (initialApp (storeWith ''{not json'')))"
    by blast
  from t2 h2 h3 have c2:
    "\<not> rendersSignUp (loadUserProfile parseNoName (initialApp (storeWith noNameText)))
     \<and> appStorage (loadUserProfile parseNoName (initialApp (storeWith noNameText)))
         = storeWith noNameText"
    by blast
  from h1 h2 h3 c1 c2 show ?thesis
    by blast
qed

text \<open>
  Claim C8 as stated fails on a record that has an email and an avatar but no name: it is
  not discarded, the profile is loaded with the default name and sign-up is skipped.
\<close>

theorem profile_without_name_counterexample:
  "map_of noNameRecord ''name'' = None
   \<and> parseNoName noNameText = Some (JObject noNameRecord)
   \<and> userProfile (loadUserProfile parseNoName (initialApp (storeWith noNameText)))
       = Some (noNameRecord @ defaultProfile)
   \<and> \<not> rendersSignUp (loadUserProfile parseNoName (initialApp (storeWith noNameText)))
   \<and> nutrisnap_userProfile
        (appStorage (loadUserProfile parseNoName (initialApp (storeWith noNameText))))
       = Some noNameText"
proof -
  have n: "map_of noNameRecord ''name'' = None"
    by (simp add: noNameRecord_def)
  have p: "parseNoName noNameText = Some (JObject noNameRecord)"
    by (simp add: parseNoName_def)
  have e: "propTruthy (noNameRecord @ defaultProfile) ''name''"
      "propTruthy (noNameRecord @ defaultProfile) ''email''"
      "propTruthy (noNameRecord @ defaultProfile) ''avatarUrl''"
    by (simp_all add: propTruthy_def noNameRecord_def defaultProfile_def)
  have l: "loadUserProfile parseNoName (initialApp (storeWith noNameText))
     = (initialApp (storeWith noNameText))
         \<lparr>userProfile := Some (noNameRecord @ defaultProfile), isOnboardingComplete := True\<rparr>"
    by (simp add: loadUserProfile_def initialApp_def storeWith_def noNameText_nonempty p e
        Let_def)
  show ?thesis
    unfolding l using n p by (simp add: rendersSignUp_def initialApp_def storeWith_def)
qed

end
